theory Spec2Isabelle
  imports Complex_Main
begin

section \<open>The rain-chance colour mappings of \<^verbatim>\<open>weather_floor_lamp.py\<close>\<close>

text \<open>
  The script reads today's chance of rain, maps it to a colour (or a colour
  temperature) and sends three commands to a lamp. Python's unbounded integers are
  \<^typ>\<open>int\<close>; a Python \<^verbatim>\<open>float\<close> is an IEEE 754 binary64 number, modelled here by
  the real number it denotes, every arithmetic operation being the exact operation
  followed by rounding to the nearest binary64 number (ties to even).
\<close>

subsection \<open>Binary64 arithmetic\<close>

definition pow2 :: "int \<Rightarrow> real" where
  "pow2 e = (if 0 \<le> e then 2 ^ nat e else 1 / 2 ^ nat (- e))"

text \<open>Rounding to the nearest integer, a tie going to the even neighbour.\<close>

definition round_half_even :: "real \<Rightarrow> int" where
  "round_half_even x =
     (let f = \<lfloor>x\<rfloor>; d = x - of_int f
      in if d < 1 / 2 then f
         else if 1 / 2 < d then f + 1
         else if even f then f else f + 1)"

text \<open>\<open>ilog2 n\<close> is the position of the leading bit of \<open>n \<ge> 1\<close>.\<close>

function ilog2 :: "int \<Rightarrow> int" where
  "ilog2 n = (if n < 2 then 0 else 1 + ilog2 (n div 2))"
  by pat_completeness auto
termination
  by (relation "measure nat") auto

declare ilog2.simps [simp del]

text \<open>
  The binade of a positive real \<open>x\<close>: the exponent \<open>k\<close> with \<open>2\<^sup>k \<le> x < 2\<^sup>k\<^sup>+\<^sup>1\<close>.
  For \<open>x < 1\<close> it is minus the least \<open>j\<close> with \<open>1 / x \<le> 2\<^sup>j\<close>.
\<close>

definition binade :: "real \<Rightarrow> int" where
  "binade x = (if 1 \<le> x then ilog2 \<lfloor>x\<rfloor> else - (1 + ilog2 (\<lceil>1 / x\<rceil> - 1)))"

text \<open>
  The binary64 number nearest to a real: 53 significant bits, the exponent of the
  last bit no smaller than \<open>-1074\<close> (subnormal numbers). Overflow to infinity is not
  modelled; the script's arithmetic stays below \<open>6501\<close>.
\<close>

definition round_to_double :: "real \<Rightarrow> real" where
  "round_to_double x =
     (if x = 0 then 0
      else let a = \<bar>x\<bar>;
               e = max (binade a - 52) (- 1074);
               m = round_half_even (a / pow2 e)
           in (if x < 0 then - 1 else 1) * of_int m * pow2 e)"

definition float_div :: "real \<Rightarrow> real \<Rightarrow> real" where
  "float_div x y = round_to_double (x / y)"

definition float_mul :: "real \<Rightarrow> real \<Rightarrow> real" where
  "float_mul x y = round_to_double (x * y)"

definition float_add :: "real \<Rightarrow> real \<Rightarrow> real" where
  "float_add x y = round_to_double (x + y)"

text \<open>Python's \<^verbatim>\<open>int(x)\<close> on a float: truncation towards zero.\<close>

definition int_of_float :: "real \<Rightarrow> int" where
  "int_of_float x = (if 0 \<le> x then \<lfloor>x\<rfloor> else \<lceil>x\<rceil>)"

subsection \<open>Mapping: rain percentage to RGB or colour temperature\<close>

text \<open>
  \<^verbatim>\<open>map_rain_to_rgb\<close>: the chain of \<^verbatim>\<open>if rain == 0\<close>, \<^verbatim>\<open>if rain <= 20\<close>, ... in the
  order of the source.
\<close>

definition map_rain_to_rgb :: "int \<Rightarrow> int \<times> int \<times> int" where
  "map_rain_to_rgb rain =
     (if rain = 0 then (255, 127, 0)
      else if rain \<le> 20 then (255, 255, 0)
      else if rain \<le> 40 then (127, 255, 0)
      else if rain \<le> 60 then (0, 255, 255)
      else if rain \<le> 80 then (0, 127, 255)
      else (0, 0, 255))"

text \<open>
  \<^verbatim>\<open>map_rain_to_ct\<close>: \<^verbatim>\<open>rain = max(0, min(100, int(rain)))\<close>, then
  \<^verbatim>\<open>int(ct_min + (ct_max - ct_min) * (rain / 100.0))\<close>. The argument is an integer, so
  \<^verbatim>\<open>int(rain)\<close> is the identity; the integers \<open>2700\<close>, \<open>3800\<close> and \<open>rain\<close> convert to
  floats exactly.
\<close>

definition map_rain_to_ct :: "int \<Rightarrow> int" where
  "map_rain_to_ct rain0 =
     (let rain = max 0 (min 100 rain0);
          ct_min = 2700;
          ct_max = 6500
      in int_of_float
           (float_add (of_int ct_min)
              (float_mul (of_int (ct_max - ct_min)) (float_div (of_int rain) 100))))"


section \<open>The script's environment\<close>

subsection \<open>Exceptions and results\<close>

text \<open>
  A call that can raise returns a sum: \<open>Inl e\<close> when it raises \<open>e\<close>, \<open>Inr v\<close> when it
  returns \<open>v\<close>. The first four exceptions are subclasses of
  \<^verbatim>\<open>requests.exceptions.RequestException\<close>; \<open>RequestsJSONDecodeError\<close> is the error
  that \<^verbatim>\<open>r.json()\<close> raises in requests 2.27 and later, \<open>ValueError\<close> the one it
  raises in earlier versions.
\<close>

datatype exn =
    ConnectionError | Timeout | HTTPError | RequestsJSONDecodeError
  | ValueError | TypeError | AttributeError | KeyError | IndexError

definition is_request_exception :: "exn \<Rightarrow> bool" where
  "is_request_exception e = (e = ConnectionError \<or> e = Timeout \<or> e = HTTPError \<or> e = RequestsJSONDecodeError)"

subsection \<open>Decoded JSON\<close>

text \<open>
  What \<^verbatim>\<open>r.json()\<close> returns: \<^verbatim>\<open>None\<close>, a bool, a number, a string, a list or a dict
  with string keys (an association list with distinct keys). A number is the real it
  denotes. A string is its sequence of bytes in UTF-8, so \<^verbatim>\<open>.encode("utf-8")\<close> and
  \<^verbatim>\<open>.decode("utf-8")\<close> leave the representation unchanged and are not written.
\<close>

datatype json =
    JNull | JBool bool | JNum real | JStr string | JArr "json list"
  | JObj "(string \<times> json) list"

text \<open>Python's truth value of an object, as \<^verbatim>\<open>s or ""\<close> tests it.\<close>

fun truthy :: "json \<Rightarrow> bool" where
  "truthy JNull = False"
| "truthy (JBool b) = b"
| "truthy (JNum x) = (x \<noteq> 0)"
| "truthy (JStr s) = (s \<noteq> [])"
| "truthy (JArr xs) = (xs \<noteq> [])"
| "truthy (JObj kvs) = (kvs \<noteq> [])"

text \<open>\<^verbatim>\<open>obj[key]\<close> with a string key, and \<^verbatim>\<open>obj[0]\<close>.\<close>

definition subscript_key :: "json \<Rightarrow> string \<Rightarrow> exn + json" where
  "subscript_key obj k =
     (case obj of
        JObj kvs \<Rightarrow> (case map_of kvs k of None \<Rightarrow> Inl KeyError | Some v \<Rightarrow> Inr v)
      | _ \<Rightarrow> Inl TypeError)"

definition subscript_0 :: "json \<Rightarrow> exn + json" where
  "subscript_0 obj =
     (case obj of
        JArr xs \<Rightarrow> (case xs of [] \<Rightarrow> Inl IndexError | x # _ \<Rightarrow> Inr x)
      | JStr s \<Rightarrow> (case s of [] \<Rightarrow> Inl IndexError | c # _ \<Rightarrow> Inr (JStr [c]))
      | JObj kvs \<Rightarrow> Inl KeyError
      | _ \<Rightarrow> Inl TypeError)"

text \<open>\<^verbatim>\<open>obj.get(key, default)\<close>: only a dict has the method.\<close>

definition dict_get :: "json \<Rightarrow> string \<Rightarrow> json \<Rightarrow> exn + json" where
  "dict_get obj k d =
     (case obj of
        JObj kvs \<Rightarrow> Inr (case map_of kvs k of None \<Rightarrow> d | Some v \<Rightarrow> v)
      | _ \<Rightarrow> Inl AttributeError)"

subsection \<open>Decimal numerals and Base64\<close>

text \<open>
  The texts that \<^verbatim>\<open>str(n)\<close> produces are ASCII: \<open>is_digit\<close> and \<open>int_of_digits\<close>
  speak of the ASCII digits only.
\<close>

definition is_digit :: "char \<Rightarrow> bool" where
  "is_digit c = (48 \<le> (of_char c :: nat) \<and> (of_char c :: nat) \<le> 57)"

text \<open>The number a string of ASCII digits denotes.\<close>

definition int_of_digits :: "string \<Rightarrow> int" where
  "int_of_digits ds = foldl (\<lambda>acc c. 10 * acc + (of_char c - 48)) 0 ds"

text \<open>\<^verbatim>\<open>str(n)\<close> on an integer.\<close>

fun str_nat :: "nat \<Rightarrow> string" where
  "str_nat n = (if n < 10 then [char_of (48 + n)] else str_nat (n div 10) @ [char_of (48 + n mod 10)])"

declare str_nat.simps [simp del]

definition str_int :: "int \<Rightarrow> string" where
  "str_int i = (if i < 0 then CHR ''-'' # str_nat (nat (- i)) else str_nat (nat i))"

definition b64_alphabet :: string where
  "b64_alphabet = ''ABCDEFGHIJKLMNOPQRSTUVWXYZabcdefghijklmnopqrstuvwxyz0123456789+/''"

definition b64_char :: "nat \<Rightarrow> char" where
  "b64_char n = b64_alphabet ! (n mod 64)"

text \<open>
  \<^verbatim>\<open>base64.b64encode\<close>: the 24 bits of three bytes become four characters of six bits
  each, the last group padded.
\<close>

fun b64encode :: "string \<Rightarrow> string" where
  "b64encode [] = []"
| "b64encode [a] =
     (let x = of_char a
      in [b64_char (x div 4), b64_char (x mod 4 * 16), CHR ''='', CHR ''=''])"
| "b64encode [a, b] =
     (let x = of_char a; y = of_char b
      in [b64_char (x div 4), b64_char (x mod 4 * 16 + y div 16), b64_char (y mod 16 * 4),
          CHR ''=''])"
| "b64encode (a # b # c # rest) =
     (let x = of_char a; y = of_char b; z = of_char c
      in [b64_char (x div 4), b64_char (x mod 4 * 16 + y div 16),
          b64_char (y mod 16 * 4 + z div 64), b64_char (z mod 64)]
         @ b64encode rest)"

subsection \<open>Unicode text and the interpreter\<close>

text \<open>
  What the script uses of the Python interpreter without defining it: the decimal
  value of a character beyond ASCII (\<open>Some d\<close> exactly for the characters of category
  \<open>Nd\<close>, which \<^verbatim>\<open>\d\<close> matches and \<^verbatim>\<open>int\<close> reads), and the limit on the number
  of digits that \<^verbatim>\<open>int\<close> converts from a string (\<^verbatim>\<open>sys.get_int_max_str_digits()\<close>:
  \<open>4300\<close> by default since CPython 3.11, \<open>0\<close> when there is no limit).
\<close>

record python =
  unicode_decimal :: "nat \<Rightarrow> nat option"
  int_max_str_digits :: nat

text \<open>The characters (code points) of a text, from its UTF-8 bytes.\<close>

fun utf8_decode :: "string \<Rightarrow> nat list" where
  "utf8_decode [] = []"
| "utf8_decode [a] = [of_char a]"
| "utf8_decode [a, b] =
     (if 192 \<le> (of_char a :: nat) \<and> (of_char a :: nat) < 224
      then [(of_char a - 192) * 64 + (of_char b - 128)]
      else of_char a # utf8_decode [b])"
| "utf8_decode [a, b, c] =
     (if (of_char a :: nat) < 192 then of_char a # utf8_decode [b, c]
      else if (of_char a :: nat) < 224
      then ((of_char a - 192) * 64 + (of_char b - 128)) # utf8_decode [c]
      else [(of_char a - 224) * 4096 + (of_char b - 128) * 64 + (of_char c - 128)])"
| "utf8_decode (a # b # c # d # rest) =
     (if (of_char a :: nat) < 192 then of_char a # utf8_decode (b # c # d # rest)
      else if (of_char a :: nat) < 224
      then ((of_char a - 192) * 64 + (of_char b - 128)) # utf8_decode (c # d # rest)
      else if (of_char a :: nat) < 240
      then ((of_char a - 224) * 4096 + (of_char b - 128) * 64 + (of_char c - 128))
             # utf8_decode (d # rest)
      else ((of_char a - 240) * 262144 + (of_char b - 128) * 4096 + (of_char c - 128) * 64
              + (of_char d - 128)) # utf8_decode rest)"

text \<open>The decimal value of a character, if it is a decimal digit.\<close>

definition decimal_of :: "python \<Rightarrow> nat \<Rightarrow> nat option" where
  "decimal_of py c =
     (if 48 \<le> c \<and> c \<le> 57 then Some (c - 48)
      else if c < 128 then None
      else unicode_decimal py c)"

subsection \<open>HTTP requests and the world\<close>

datatype http_method = GET | POST

text \<open>
  The arguments of a \<^verbatim>\<open>requests.get\<close> or \<^verbatim>\<open>requests.post\<close> call. \<open>req_data\<close> is the
  value whose \<^verbatim>\<open>json.dumps\<close> text is the body; \<open>req_auth\<close> is the \<^verbatim>\<open>auth=\<close> argument
  (a user name and a password), which the script never passes.
\<close>

record request =
  req_method :: http_method
  req_url :: string
  req_headers :: "(string \<times> string) list"
  req_auth :: "(string \<times> string) option"
  req_data :: "json option"
  req_timeout :: nat

text \<open>
  A response: whether \<^verbatim>\<open>r.raise_for_status()\<close> raises \<open>HTTPError\<close>, and what
  \<^verbatim>\<open>r.json()\<close> does.
\<close>

record response =
  http_error :: bool
  json_body :: "exn + json"

datatype log_record =
    Weather_API_error exn
  | Max_daylight int int int int
  | POST_line string json
  | SwitchBot_error json
  | SwitchBot_OK json
  | SwitchBot_request_error exn
  | Rain_chance_used int
  | Set_CT int int
  | Set_RGB "int \<times> int \<times> int" int

text \<open>
  The world the script runs in. \<open>now w k\<close> is the \<open>k\<close>-th reading of \<^verbatim>\<open>time.time()\<close>
  (a float, in seconds), \<open>uuid4 w k\<close> the \<open>k\<close>-th \<^verbatim>\<open>str(uuid.uuid4())\<close>, and
  \<open>server w k req\<close> what the \<open>k\<close>-th HTTP call does when it sends \<open>req\<close>: it raises, or
  returns a response. \<open>trace\<close> lists the requests issued so far, \<open>log\<close> the records
  logged so far.
\<close>

record world =
  now :: "nat \<Rightarrow> real"
  uuid4 :: "nat \<Rightarrow> string"
  server :: "nat \<Rightarrow> request \<Rightarrow> exn + response"
  clock_reads :: nat
  uuid_draws :: nat
  trace :: "request list"
  log :: "log_record list"
  python :: python

text \<open>
  The module's globals, read from the process environment at import, and the keyed
  hash of the standard library: \<open>hmac_sha256 E key msg\<close> is
  \<^verbatim>\<open>hmac.new(key, msg=msg, digestmod=hashlib.sha256).digest()\<close>.
\<close>

record env =
  ACCESS_TOKEN :: string
  SECRET :: string
  DEVICE_ID :: string
  CITY_CODE :: string
  USE_COLOR_TEMPERATURE :: bool
  hmac_sha256 :: "string \<Rightarrow> string \<Rightarrow> string"

definition API_BASE_URL :: string where
  "API_BASE_URL = ''https://api.switch-bot.com''"

definition WEATHER_URL :: string where
  "WEATHER_URL = ''https://weather.tsukumijima.net/api/forecast/city''"

definition HTTP_TIMEOUT :: nat where
  "HTTP_TIMEOUT = 10"

definition time_time :: "world \<Rightarrow> real \<times> world" where
  "time_time w = (now w (clock_reads w), w\<lparr>clock_reads := Suc (clock_reads w)\<rparr>)"

definition uuid4_str :: "world \<Rightarrow> string \<times> world" where
  "uuid4_str w = (uuid4 w (uuid_draws w), w\<lparr>uuid_draws := Suc (uuid_draws w)\<rparr>)"

definition http_call :: "request \<Rightarrow> world \<Rightarrow> (exn + response) \<times> world" where
  "http_call req w = (server w (length (trace w)) req, w\<lparr>trace := trace w @ [req]\<rparr>)"

definition logger :: "log_record \<Rightarrow> world \<Rightarrow> world" where
  "logger l w = w\<lparr>log := log w @ [l]\<rparr>"

text \<open>Sequencing of calls that may raise: an exception ends the sequence.\<close>

definition and_then ::
  "(world \<Rightarrow> (exn + 'a) \<times> world) \<Rightarrow> ('a \<Rightarrow> world \<Rightarrow> (exn + 'b) \<times> world)
   \<Rightarrow> world \<Rightarrow> (exn + 'b) \<times> world" where
  "and_then m f w = (case m w of (Inl e, w') \<Rightarrow> (Inl e, w') | (Inr x, w') \<Rightarrow> f x w')"

section \<open>The script\<close>

subsection \<open>Weather API helpers\<close>

text \<open>
  \<^verbatim>\<open>_to_int_pct(s)\<close> is \<^verbatim>\<open>int(re.sub(r"\D", "", s or "") or 0)\<close>: a false value is
  replaced by the empty string; \<^verbatim>\<open>re.sub\<close> raises \<open>TypeError\<close> on anything but a
  string and otherwise keeps the decimal digits, of any script; no digit at all
  gives \<open>0\<close>; and \<^verbatim>\<open>int\<close> raises \<open>ValueError\<close> on more digits than the interpreter's
  limit.
\<close>

definition to_int_pct :: "python \<Rightarrow> json \<Rightarrow> exn + int" where
  "to_int_pct py s =
     (case (if truthy s then s else JStr []) of
        JStr t \<Rightarrow>
          (let ds = List.map_filter (decimal_of py) (utf8_decode t)
           in if ds = [] then Inr 0
              else if 0 < int_max_str_digits py \<and> int_max_str_digits py < length ds
              then Inl ValueError
              else Inr (int (foldl (\<lambda>acc d. 10 * acc + d) 0 ds)))
      | _ \<Rightarrow> Inl TypeError)"

text \<open>The body of the \<^verbatim>\<open>try\<close>: GET, \<^verbatim>\<open>raise_for_status\<close>, \<^verbatim>\<open>json\<close>, and the three subscripts.\<close>

definition weather_request :: "string \<Rightarrow> request" where
  "weather_request city_code =
     \<lparr>req_method = GET, req_url = WEATHER_URL @ ''/'' @ city_code, req_headers = [],
      req_auth = None, req_data = None, req_timeout = HTTP_TIMEOUT\<rparr>"

definition chance_of_rain :: "json \<Rightarrow> exn + json" where
  "chance_of_rain data =
     (case subscript_key data ''forecasts'' of
        Inl e \<Rightarrow> Inl e
      | Inr fs \<Rightarrow>
          (case subscript_0 fs of
             Inl e \<Rightarrow> Inl e
           | Inr today \<Rightarrow> subscript_key today ''chanceOfRain''))"

definition fetch_rain :: "string \<Rightarrow> world \<Rightarrow> (exn + json) \<times> world" where
  "fetch_rain city_code w =
     (let (res, w1) = http_call (weather_request city_code) w
      in (case res of
            Inl e \<Rightarrow> Inl e
          | Inr r \<Rightarrow>
              if http_error r then Inl HTTPError
              else (case json_body r of
                      Inl e \<Rightarrow> Inl e
                    | Inr data \<Rightarrow> chance_of_rain data),
          w1))"

text \<open>The code after the \<^verbatim>\<open>try\<close>: the three slots in the order of the dict display, and their maximum.\<close>

definition slot_pct :: "python \<Rightarrow> json \<Rightarrow> string \<Rightarrow> exn + int" where
  "slot_pct py rain k =
     (case dict_get rain k (JStr []) of Inl e \<Rightarrow> Inl e | Inr v \<Rightarrow> to_int_pct py v)"

definition max_daylight :: "python \<Rightarrow> json \<Rightarrow> exn + int \<times> int \<times> int \<times> int" where
  "max_daylight py rain =
     (case slot_pct py rain ''T06_12'' of
        Inl e \<Rightarrow> Inl e
      | Inr a \<Rightarrow>
          (case slot_pct py rain ''T12_18'' of
             Inl e \<Rightarrow> Inl e
           | Inr b \<Rightarrow>
               (case slot_pct py rain ''T18_24'' of
                  Inl e \<Rightarrow> Inl e
                | Inr c \<Rightarrow> Inr (a, b, c, max a (max b c)))))"

definition get_today_rain_percent_max_all :: "string \<Rightarrow> world \<Rightarrow> (exn + int) \<times> world" where
  "get_today_rain_percent_max_all city_code w =
     (let (res, w1) = fetch_rain city_code w
      in case res of
           Inl e \<Rightarrow> (Inr 0, logger (Weather_API_error e) w1)
         | Inr rain \<Rightarrow>
             (case max_daylight (python w1) rain of
                Inl e \<Rightarrow> (Inl e, w1)
              | Inr (a, b, c, val) \<Rightarrow> (Inr val, logger (Max_daylight a b c val) w1)))"

subsection \<open>SwitchBot authentication and command sending\<close>

text \<open>
  \<^verbatim>\<open>generate_sign\<close>: the nonce first (a fresh UUID when none is given), then
  \<^verbatim>\<open>t = str(int(round(time.time() * 1000)))\<close>, then the signature.
\<close>

definition generate_sign ::
  "env \<Rightarrow> string \<Rightarrow> string \<Rightarrow> string option \<Rightarrow> world \<Rightarrow> (string \<times> string \<times> string) \<times> world" where
  "generate_sign E token secret nonce0 w =
     (let (nonce, w1) = (case nonce0 of None \<Rightarrow> uuid4_str w | Some n \<Rightarrow> (n, w));
          (secs, w2) = time_time w1;
          t = str_int (round_half_even (float_mul secs 1000));
          msg = token @ t @ nonce;
          secret_bytes = secret;
          sign = b64encode (hmac_sha256 E secret_bytes msg)
      in ((t, sign, nonce), w2))"


text \<open>
  The \<^verbatim>\<open>try\<close> of \<^verbatim>\<open>post_command\<close>: what it returns or raises, and what it logs.
  \<^verbatim>\<open>payload.get("statusCode")\<close> raises \<open>AttributeError\<close> when the payload is not a dict.
\<close>

definition post_try :: "exn + response \<Rightarrow> world \<Rightarrow> (exn + json) \<times> world" where
  "post_try res w =
     (case res of
        Inl e \<Rightarrow> (Inl e, w)
      | Inr r \<Rightarrow>
          if http_error r then (Inl HTTPError, w)
          else (case json_body r of
                  Inl e \<Rightarrow> (Inl e, w)
                | Inr payload \<Rightarrow>
                    (case dict_get payload ''statusCode'' JNull of
                       Inl e \<Rightarrow> (Inl e, w)
                     | Inr code \<Rightarrow>
                         if code \<noteq> JNum 100 then (Inr payload, logger (SwitchBot_error payload) w)
                         else (Inr payload, logger (SwitchBot_OK payload) w))))"

definition post_command ::
  "env \<Rightarrow> string \<Rightarrow> string \<Rightarrow> string \<Rightarrow> string \<Rightarrow> world \<Rightarrow> (exn + json option) \<times> world" where
  "post_command E device_id command parameter command_type w =
     (let ((t, sign, nonce), w1) = generate_sign E (ACCESS_TOKEN E) (SECRET E) None w;
          headers =
            [(''Content-Type'', ''application/json; charset=utf8''),
             (''Authorization'', ACCESS_TOKEN E),
             (''t'', t),
             (''sign'', sign),
             (''nonce'', nonce)];
          url = API_BASE_URL @ ''/v1.1/devices/'' @ device_id @ ''/commands'';
          body = JObj [(''command'', JStr command), (''parameter'', JStr parameter),
                       (''commandType'', JStr command_type)];
          w2 = logger (POST_line url body) w1;
          (res, w3) =
            http_call \<lparr>req_method = POST, req_url = url, req_headers = headers,
              req_auth = None, req_data = Some body, req_timeout = HTTP_TIMEOUT\<rparr> w2
      in case post_try res w3 of
           (Inr payload, w4) \<Rightarrow> (Inr (Some payload), w4)
         | (Inl e, w4) \<Rightarrow>
             if is_request_exception e then (Inr None, logger (SwitchBot_request_error e) w4)
             else (Inl e, w4))"

subsection \<open>Floor lamp control\<close>

text \<open>
  The \<open>brightness\<close> argument, by what \<^verbatim>\<open>int()\<close> does with it: an integer is kept, a
  (finite) float is truncated towards zero, and any other object stands for one that
  \<^verbatim>\<open>int()\<close> rejects (\<^verbatim>\<open>None\<close>, a text that is no numeral, a list).
\<close>

datatype brightness_arg = PyInt int | PyFloat real | PyNonInt

definition clamp_brightness :: "brightness_arg \<Rightarrow> int" where
  "clamp_brightness brightness =
     (let b = (case brightness of PyInt i \<Rightarrow> i | PyFloat x \<Rightarrow> int_of_float x | PyNonInt \<Rightarrow> 100)
      in max 1 (min 100 b))"

definition set_lamp_rgb ::
  "env \<Rightarrow> string \<Rightarrow> int \<times> int \<times> int \<Rightarrow> brightness_arg \<Rightarrow> world \<Rightarrow> (exn + unit) \<times> world" where
  "set_lamp_rgb E device_id color brightness0 =
     (let (r, g, b) = (case color of (r0, g0, b0) \<Rightarrow>
            (max 0 (min 255 r0), max 0 (min 255 g0), max 0 (min 255 b0)));
          brightness = clamp_brightness brightness0
      in and_then (post_command E device_id ''setBrightness'' (str_int brightness) ''command'') (\<lambda>_.
         and_then (post_command E device_id ''setColor''
                     (str_int r @ '':'' @ str_int g @ '':'' @ str_int b) ''command'') (\<lambda>_.
         and_then (post_command E device_id ''turnOn'' ''default'' ''command'') (\<lambda>_ w.
         (Inr (), w)))))"

definition set_lamp_ct ::
  "env \<Rightarrow> string \<Rightarrow> int \<Rightarrow> brightness_arg \<Rightarrow> world \<Rightarrow> (exn + unit) \<times> world" where
  "set_lamp_ct E device_id color_temperature brightness0 =
     (let ct = max 2700 (min 6500 color_temperature);
          brightness = clamp_brightness brightness0
      in and_then (post_command E device_id ''setBrightness'' (str_int brightness) ''command'') (\<lambda>_.
         and_then (post_command E device_id ''setColorTemperature'' (str_int ct) ''command'') (\<lambda>_.
         and_then (post_command E device_id ''turnOn'' ''default'' ''command'') (\<lambda>_ w.
         (Inr (), w)))))"

subsection \<open>Main execution\<close>

definition main :: "env \<Rightarrow> world \<Rightarrow> (exn + bool) \<times> world" where
  "main E =
     and_then (get_today_rain_percent_max_all (CITY_CODE E)) (\<lambda>rain w0.
       (let w1 = logger (Rain_chance_used rain) w0;
            brightness = 100
        in if USE_COLOR_TEMPERATURE E then
             (let ct = map_rain_to_ct rain;
                  w2 = logger (Set_CT ct brightness) w1
              in and_then (set_lamp_ct E (DEVICE_ID E) ct (PyInt brightness))
                   (\<lambda>_ w. (Inr True, w)) w2)
           else
             (let rgb = map_rain_to_rgb rain;
                  w2 = logger (Set_RGB rgb brightness) w1
              in and_then (set_lamp_rgb E (DEVICE_ID E) rgb (PyInt brightness))
                   (\<lambda>_ w. (Inr True, w)) w2)))"


section \<open>Notions used by the specification\<close>

text \<open>
  The POST that carries a command, signed from one clock reading \<open>secs\<close> and one
  nonce: the millisecond timestamp, the Base64 of the HMAC-SHA256 of
  token, timestamp and nonce under the secret, and the five headers.
\<close>

definition command_request ::
  "env \<Rightarrow> string \<Rightarrow> string \<Rightarrow> string \<Rightarrow> string \<Rightarrow> real \<Rightarrow> string \<Rightarrow> request" where
  "command_request E device_id command parameter command_type secs nonce =
     (let t = str_int (round_half_even (float_mul secs 1000));
          sign = b64encode (hmac_sha256 E (SECRET E) (ACCESS_TOKEN E @ t @ nonce))
      in \<lparr>req_method = POST,
          req_url = API_BASE_URL @ ''/v1.1/devices/'' @ device_id @ ''/commands'',
          req_headers =
            [(''Content-Type'', ''application/json; charset=utf8''),
             (''Authorization'', ACCESS_TOKEN E), (''t'', t), (''sign'', sign), (''nonce'', nonce)],
          req_auth = None,
          req_data = Some (JObj [(''command'', JStr command), (''parameter'', JStr parameter),
                                 (''commandType'', JStr command_type)]),
          req_timeout = HTTP_TIMEOUT\<rparr>)"

text \<open>The lamp functions leave the command type at its default.\<close>

abbreviation signed_command_request ::
  "env \<Rightarrow> string \<Rightarrow> string \<Rightarrow> string \<Rightarrow> real \<Rightarrow> string \<Rightarrow> request" where
  "signed_command_request E device_id command parameter secs nonce \<equiv>
     command_request E device_id command parameter ''command'' secs nonce"

text \<open>
  Reading Base64 back (RFC 4648): the position of a character in the alphabet, and
  the bytes that four characters stand for, with the padding of a last group.
\<close>

definition b64_index :: "char \<Rightarrow> nat option" where
  "b64_index c =
     (let i = length (takeWhile (\<lambda>x. x \<noteq> c) b64_alphabet)
      in if i < 64 then Some i else None)"

fun b64decode :: "string \<Rightarrow> string option" where
  "b64decode [] = Some []"
| "b64decode (c1 # c2 # c3 # c4 # rest) =
     (case b64_index c1 of
        None \<Rightarrow> None
      | Some i1 \<Rightarrow>
          (case b64_index c2 of
             None \<Rightarrow> None
           | Some i2 \<Rightarrow>
               if c3 = CHR ''='' \<and> c4 = CHR ''='' \<and> rest = []
               then Some [char_of (i1 * 4 + i2 div 16)]
               else (case b64_index c3 of
                       None \<Rightarrow> None
                     | Some i3 \<Rightarrow>
                         if c4 = CHR ''='' \<and> rest = []
                         then Some [char_of (i1 * 4 + i2 div 16),
                                    char_of (i2 mod 16 * 16 + i3 div 4)]
                         else (case b64_index c4 of
                                 None \<Rightarrow> None
                               | Some i4 \<Rightarrow>
                                   (case b64decode rest of
                                      None \<Rightarrow> None
                                    | Some bs \<Rightarrow>
                                        Some (char_of (i1 * 4 + i2 div 16)
                                              # char_of (i2 mod 16 * 16 + i3 div 4)
                                              # char_of (i3 mod 4 * 64 + i4) # bs))))))"
| "b64decode _ = None"

text \<open>
  A reply to a POST is a request-level failure when sending, the status check or
  the decoding raises a \<^verbatim>\<open>RequestException\<close>.
\<close>

definition request_failed :: "exn + response \<Rightarrow> bool" where
  "request_failed res =
     (case res of
        Inl e \<Rightarrow> is_request_exception e
      | Inr r \<Rightarrow>
          http_error r \<or> (case json_body r of Inl e \<Rightarrow> is_request_exception e | Inr _ \<Rightarrow> False))"

text \<open>
  A reply is of the kind \<^verbatim>\<open>post_command\<close> is typed for (\<^verbatim>\<open>Optional[dict]\<close>) when it
  is a request-level failure or its body decodes to a JSON object.
\<close>

definition is_dict :: "json \<Rightarrow> bool" where
  "is_dict v = (case v of JObj _ \<Rightarrow> True | _ \<Rightarrow> False)"

definition reply_handled :: "exn + response \<Rightarrow> bool" where
  "reply_handled res =
     (request_failed res \<or>
      (case res of
         Inl e \<Rightarrow> False
       | Inr r \<Rightarrow> (case json_body r of Inl e \<Rightarrow> False | Inr payload \<Rightarrow> is_dict payload)))"

text \<open>
  A request carries authentication material when it has credentials, or an
  \<^verbatim>\<open>Authorization\<close> or \<^verbatim>\<open>sign\<close> header.
\<close>

definition authenticated :: "request \<Rightarrow> bool" where
  "authenticated req =
     (case req_auth req of
        Some _ \<Rightarrow> True
      | None \<Rightarrow>
          (case map_of (req_headers req) ''Authorization'' of
             Some _ \<Rightarrow> True
           | None \<Rightarrow> (case map_of (req_headers req) ''sign'' of Some _ \<Rightarrow> True | None \<Rightarrow> False)))"

text \<open>
  A slot is of the kind the script is typed for (\<^verbatim>\<open>Dict[str, str]\<close>) when it is
  missing, a text, or a false value (which \<^verbatim>\<open>s or ""\<close> replaces by the empty text).
\<close>

definition slot_typed :: "(string \<times> json) list \<Rightarrow> string \<Rightarrow> bool" where
  "slot_typed rain k =
     (case map_of rain k of None \<Rightarrow> True | Some (JStr s) \<Rightarrow> True | Some v \<Rightarrow> \<not> truthy v)"

text \<open>The requests issued between two states of the world.\<close>

definition exchanges :: "world \<Rightarrow> world \<Rightarrow> request list" where
  "exchanges w w' = drop (length (trace w)) (trace w')"

text \<open>
  The three signed commands of a lamp function, from the world it starts in: the
  brightness, the colour (or colour temperature) and \<open>turnOn\<close>, the \<open>i\<close>-th signed from
  the \<open>i\<close>-th next clock reading and the \<open>i\<close>-th next UUID.
\<close>

definition three_signed_posts ::
  "env \<Rightarrow> string \<Rightarrow> string \<Rightarrow> string \<Rightarrow> string \<Rightarrow> world \<Rightarrow> request list" where
  "three_signed_posts E device_id brightness_text colour_command colour_text w =
     [signed_command_request E device_id ''setBrightness'' brightness_text
        (now w (clock_reads w)) (uuid4 w (uuid_draws w)),
      signed_command_request E device_id colour_command colour_text
        (now w (clock_reads w + 1)) (uuid4 w (uuid_draws w + 1)),
      signed_command_request E device_id ''turnOn'' ''default''
        (now w (clock_reads w + 2)) (uuid4 w (uuid_draws w + 2))]"

text \<open>The text of an RGB triple as \<^verbatim>\<open>setColor\<close> takes it.\<close>

definition rgb_text :: "int \<Rightarrow> int \<Rightarrow> int \<Rightarrow> string" where
  "rgb_text r g b = str_int r @ '':'' @ str_int g @ '':'' @ str_int b"

section \<open>An example run\<close>

text \<open>
  A city, a lamp and a world to run the script in: the weather service answers with
  a forecast, the device service with \<open>statusCode = 100\<close>. The keyed hash of the
  example is a stand-in that concatenates key and message; the interpreter of the
  example knows the fullwidth digits beyond ASCII and has the default digit limit.
\<close>

definition demo_env :: env where
  "demo_env =
     \<lparr>ACCESS_TOKEN = ''token'', SECRET = ''secret'', DEVICE_ID = ''lamp'', CITY_CODE = ''130010'',
      USE_COLOR_TEMPERATURE = False, hmac_sha256 = (\<lambda>key msg. key @ msg)\<rparr>"

definition demo_slots :: "(string \<times> json) list" where
  "demo_slots =
     [(''T00_06'', JStr ''90%''), (''T06_12'', JStr ''10%''), (''T12_18'', JStr ''40%''),
      (''T18_24'', JStr ''--%'')]"

definition forecast_of :: "(string \<times> json) list \<Rightarrow> json" where
  "forecast_of slots = JObj [(''forecasts'', JArr [JObj [(''chanceOfRain'', JObj slots)]])]"

definition long_digits :: string where
  "long_digits = replicate 4301 CHR ''9''"

definition demo_forecast :: json where
  "demo_forecast = forecast_of demo_slots"

definition demo_payload :: json where
  "demo_payload = JObj [(''statusCode'', JNum 100), (''message'', JStr ''success'')]"

definition demo_server :: "json \<Rightarrow> json \<Rightarrow> nat \<Rightarrow> request \<Rightarrow> exn + response" where
  "demo_server forecast payload k req =
     Inr \<lparr>http_error = False,
          json_body = Inr (if req_method req = GET then forecast else payload)\<rparr>"

definition demo_world :: "json \<Rightarrow> json \<Rightarrow> world" where
  "demo_world forecast payload =
     \<lparr>now = (\<lambda>k. 1700000000 + real k / 8), uuid4 = (\<lambda>k. ''uuid-'' @ str_nat k),
      server = demo_server forecast payload,
      clock_reads = 0, uuid_draws = 0, trace = [], log = [],
      python = \<lparr>unicode_decimal =
                   (\<lambda>c. if 65296 \<le> c \<and> c \<le> 65305 then Some (c - 65296) else None),
                 int_max_str_digits = 4300\<rparr>\<rparr>"

section \<open>Properties of the mappings\<close>

lemma ilog2_0 [simp]: "ilog2 0 = 0"
  by (simp add: ilog2.simps)

lemma ilog2_1 [simp]: "ilog2 1 = 0"
  by (simp add: ilog2.simps)

lemma ilog2_numeral [simp]:
  "ilog2 (numeral k) = (if numeral k < (2::int) then 0 else 1 + ilog2 (numeral k div 2))"
  by (rule ilog2.simps)

lemmas float_defs =
  float_add_def float_mul_def float_div_def int_of_float_def round_to_double_def
  binade_def round_half_even_def pow2_def

text \<open>
  The floating-point interpolation is exact on every percentage: each of the 101
  values is computed through the three roundings.
\<close>

lemma interpolation_exact_0_25:
  assumes "0 \<le> r" "r \<le> 25"
  shows "int_of_float (float_add 2700 (float_mul 3800 (float_div (of_int r) 100)))
         = 2700 + 38 * r"
proof -
  from assms have "r \<in> set [0..25]"
    unfolding set_upto by simp
  then show ?thesis
    apply (simp del: set_upto add: upto.simps [of _ 25])
    apply (elim disjE)
    apply (hypsubst, simp add: float_defs Let_def)+
    done
qed

lemma interpolation_exact_26_50:
  assumes "26 \<le> r" "r \<le> 50"
  shows "int_of_float (float_add 2700 (float_mul 3800 (float_div (of_int r) 100)))
         = 2700 + 38 * r"
proof -
  from assms have "r \<in> set [26..50]"
    unfolding set_upto by simp
  then show ?thesis
    apply (simp del: set_upto add: upto.simps [of _ 50])
    apply (elim disjE)
    apply (hypsubst, simp add: float_defs Let_def)+
    done
qed

lemma interpolation_exact_51_75:
  assumes "51 \<le> r" "r \<le> 75"
  shows "int_of_float (float_add 2700 (float_mul 3800 (float_div (of_int r) 100)))
         = 2700 + 38 * r"
proof -
  from assms have "r \<in> set [51..75]"
    unfolding set_upto by simp
  then show ?thesis
    apply (simp del: set_upto add: upto.simps [of _ 75])
    apply (elim disjE)
    apply (hypsubst, simp add: float_defs Let_def)+
    done
qed

lemma interpolation_exact_76_100:
  assumes "76 \<le> r" "r \<le> 100"
  shows "int_of_float (float_add 2700 (float_mul 3800 (float_div (of_int r) 100)))
         = 2700 + 38 * r"
proof -
  from assms have "r \<in> set [76..100]"
    unfolding set_upto by simp
  then show ?thesis
    apply (simp del: set_upto add: upto.simps [of _ 100])
    apply (elim disjE)
    apply (hypsubst, simp add: float_defs Let_def)+
    done
qed

lemma interpolation_exact:
  assumes "0 \<le> r" "r \<le> 100"
  shows "int_of_float (float_add 2700 (float_mul 3800 (float_div (of_int r) 100)))
         = 2700 + 38 * r"
proof -
  consider "r \<le> 25" | "26 \<le> r" "r \<le> 50" | "51 \<le> r" "r \<le> 75" | "76 \<le> r"
    by linarith
  then show ?thesis
  proof cases
    case 1
    with assms show ?thesis by (intro interpolation_exact_0_25)
  next
    case 2
    then show ?thesis by (intro interpolation_exact_26_50)
  next
    case 3
    then show ?thesis by (intro interpolation_exact_51_75)
  next
    case 4
    with assms show ?thesis by (intro interpolation_exact_76_100)
  qed
qed

lemma map_rain_to_ct_clamped: "map_rain_to_ct rain = 2700 + 38 * max 0 (min 100 rain)"
proof -
  have "0 \<le> max 0 (min 100 rain)" "max 0 (min 100 rain) \<le> 100"
    by simp_all
  from interpolation_exact [OF this] show ?thesis
    by (simp add: map_rain_to_ct_def Let_def)
qed

text \<open>
  Claim C1: on the percentages \<open>0..100\<close>, \<^verbatim>\<open>map_rain_to_rgb\<close> is piecewise constant
  with six buckets: \<open>0\<close> gives \<open>(255,127,0)\<close>, \<open>1..20\<close> gives \<open>(255,255,0)\<close>, \<open>21..40\<close>
  gives \<open>(127,255,0)\<close>, \<open>41..60\<close> gives \<open>(0,255,255)\<close>, \<open>61..80\<close> gives \<open>(0,127,255)\<close>
  and anything above \<open>80\<close> gives \<open>(0,0,255)\<close>; these six triples are exactly the
  values taken on \<open>0..100\<close>.
\<close>

theorem map_rain_to_rgb_buckets:
  "(0 \<le> rain \<and> rain \<le> 100 \<longrightarrow>
      (rain = 0 \<longrightarrow> map_rain_to_rgb rain = (255, 127, 0)) \<and>
      (1 \<le> rain \<and> rain \<le> 20 \<longrightarrow> map_rain_to_rgb rain = (255, 255, 0)) \<and>
      (21 \<le> rain \<and> rain \<le> 40 \<longrightarrow> map_rain_to_rgb rain = (127, 255, 0)) \<and>
      (41 \<le> rain \<and> rain \<le> 60 \<longrightarrow> map_rain_to_rgb rain = (0, 255, 255)) \<and>
      (61 \<le> rain \<and> rain \<le> 80 \<longrightarrow> map_rain_to_rgb rain = (0, 127, 255)) \<and>
      (80 < rain \<longrightarrow> map_rain_to_rgb rain = (0, 0, 255))) \<and>
   map_rain_to_rgb ` {0..100} =
     {(255, 127, 0), (255, 255, 0), (127, 255, 0), (0, 255, 255), (0, 127, 255), (0, 0, 255)}"
proof -
  let ?six = "{(255, 127, 0), (255, 255, 0), (127, 255, 0), (0, 255, 255), (0, 127, 255),
    (0, 0, 255)} :: (int \<times> int \<times> int) set"
  have sub: "map_rain_to_rgb ` {0..100} \<subseteq> ?six"
    by (auto simp: map_rain_to_rgb_def)
  have "map_rain_to_rgb 0 = (255, 127, 0)" "map_rain_to_rgb 20 = (255, 255, 0)"
    "map_rain_to_rgb 40 = (127, 255, 0)" "map_rain_to_rgb 60 = (0, 255, 255)"
    "map_rain_to_rgb 80 = (0, 127, 255)" "map_rain_to_rgb 100 = (0, 0, 255)"
    by (simp_all add: map_rain_to_rgb_def)
  moreover have "(0::int) \<in> {0..100}" "(20::int) \<in> {0..100}" "(40::int) \<in> {0..100}"
    "(60::int) \<in> {0..100}" "(80::int) \<in> {0..100}" "(100::int) \<in> {0..100}"
    by simp_all
  ultimately have sup: "?six \<subseteq> map_rain_to_rgb ` {0..100}"
    by (metis (no_types, lifting) empty_subsetI image_eqI insert_subset)
  have "map_rain_to_rgb ` {0..100} = ?six"
    using sub sup by (rule subset_antisym)
  then show ?thesis
    by (simp add: map_rain_to_rgb_def)
qed

theorem map_rain_to_rgb_buckets_witness:
  "map_rain_to_rgb 50 = (0, 255, 255) \<and> (0, 0, 255) \<in> map_rain_to_rgb ` {0..100}"
  using map_rain_to_rgb_buckets [of 50] by simp

text \<open>
  Claim C2: \<^verbatim>\<open>map_rain_to_ct\<close> is linear in the percentage. On \<open>0..100\<close> it returns
  \<open>2700 + (6500 - 2700) * rain / 100 = 2700 + 38 * rain\<close>; \<open>0\<close> maps to \<open>2700\<close> and \<open>100\<close>
  to \<open>6500\<close>; an input outside \<open>0..100\<close> is clamped first, so the result always lies
  in \<open>[2700, 6500]\<close>.
\<close>

theorem map_rain_to_ct_linear:
  "(0 \<le> rain \<and> rain \<le> 100 \<longrightarrow>
      map_rain_to_ct rain = 2700 + 38 * rain \<and>
      real_of_int (map_rain_to_ct rain) = 2700 + (6500 - 2700) * real_of_int rain / 100) \<and>
   map_rain_to_ct 0 = 2700 \<and> map_rain_to_ct 100 = 6500 \<and>
   map_rain_to_ct rain = map_rain_to_ct (max 0 (min 100 rain)) \<and>
   2700 \<le> map_rain_to_ct rain \<and> map_rain_to_ct rain \<le> 6500"
  by (simp add: map_rain_to_ct_clamped)

theorem map_rain_to_ct_linear_witness:
  "map_rain_to_ct 29 = 3802 \<and> map_rain_to_ct 250 = 6500 \<and> map_rain_to_ct (- 3) = 2700"
  using map_rain_to_ct_linear [of 29] map_rain_to_ct_linear [of 250]
    map_rain_to_ct_linear [of "- 3"]
  by simp

section \<open>Properties of the script\<close>

lemma post_try_fields [simp]:
  "now (snd (post_try res w)) = now w"
  "uuid4 (snd (post_try res w)) = uuid4 w"
  "server (snd (post_try res w)) = server w"
  "clock_reads (snd (post_try res w)) = clock_reads w"
  "uuid_draws (snd (post_try res w)) = uuid_draws w"
  "trace (snd (post_try res w)) = trace w"
  by (simp_all add: post_try_def logger_def dict_get_def split: sum.splits json.splits)

lemma generate_sign_None:
  "generate_sign E token secret None w =
     (let t = str_int (round_half_even (float_mul (now w (clock_reads w)) 1000));
          nonce = uuid4 w (uuid_draws w)
      in ((t, b64encode (hmac_sha256 E secret (token @ t @ nonce)), nonce),
          w\<lparr>clock_reads := Suc (clock_reads w), uuid_draws := Suc (uuid_draws w)\<rparr>))"
  by (simp add: generate_sign_def uuid4_str_def time_time_def Let_def)

text \<open>What one \<^verbatim>\<open>post_command\<close> does to the world.\<close>

lemma post_command_unfold:
  "post_command E d c p ct w =
     (let req = command_request E d c p ct (now w (clock_reads w)) (uuid4 w (uuid_draws w));
          w3 = w\<lparr>clock_reads := Suc (clock_reads w), uuid_draws := Suc (uuid_draws w),
                 log := log w @ [POST_line (req_url req)
                   (JObj [(''command'', JStr c), (''parameter'', JStr p), (''commandType'', JStr ct)])],
                 trace := trace w @ [req]\<rparr>
      in case post_try (server w (length (trace w)) req) w3 of
           (Inr payload, w4) \<Rightarrow> (Inr (Some payload), w4)
         | (Inl e, w4) \<Rightarrow>
             if is_request_exception e then (Inr None, logger (SwitchBot_request_error e) w4)
             else (Inl e, w4))"
  by (simp add: post_command_def generate_sign_None command_request_def Let_def
      http_call_def logger_def)

lemma post_command_fields [simp]:
  "now (snd (post_command E d c p ct w)) = now w"
  "uuid4 (snd (post_command E d c p ct w)) = uuid4 w"
  "server (snd (post_command E d c p ct w)) = server w"
  "clock_reads (snd (post_command E d c p ct w)) = Suc (clock_reads w)"
  "uuid_draws (snd (post_command E d c p ct w)) = Suc (uuid_draws w)"
  "trace (snd (post_command E d c p ct w)) =
     trace w @ [command_request E d c p ct (now w (clock_reads w)) (uuid4 w (uuid_draws w))]"
proof -
  let ?req = "command_request E d c p ct (now w (clock_reads w)) (uuid4 w (uuid_draws w))"
  let ?w3 = "w\<lparr>clock_reads := Suc (clock_reads w), uuid_draws := Suc (uuid_draws w),
                 log := log w @ [POST_line (req_url ?req)
                   (JObj [(''command'', JStr c), (''parameter'', JStr p), (''commandType'', JStr ct)])],
                 trace := trace w @ [?req]\<rparr>"
  obtain out w4 where pt: "post_try (server w (length (trace w)) ?req) ?w3 = (out, w4)"
    by (cases "post_try (server w (length (trace w)) ?req) ?w3")
  have w4: "now w4 = now w" "uuid4 w4 = uuid4 w" "server w4 = server w"
    "clock_reads w4 = Suc (clock_reads w)" "uuid_draws w4 = Suc (uuid_draws w)"
    "trace w4 = trace w @ [?req]"
    using post_try_fields [of "server w (length (trace w)) ?req" ?w3] by (simp_all add: pt)
  have pc: "post_command E d c p ct w =
      (case out of Inr payload \<Rightarrow> (Inr (Some payload), w4)
       | Inl e \<Rightarrow> if is_request_exception e then (Inr None, logger (SwitchBot_request_error e) w4)
             else (Inl e, w4))"
    by (simp add: post_command_unfold Let_def pt split: sum.splits)
  show "now (snd (post_command E d c p ct w)) = now w"
    "uuid4 (snd (post_command E d c p ct w)) = uuid4 w"
    "server (snd (post_command E d c p ct w)) = server w"
    "clock_reads (snd (post_command E d c p ct w)) = Suc (clock_reads w)"
    "uuid_draws (snd (post_command E d c p ct w)) = Suc (uuid_draws w)"
    "trace (snd (post_command E d c p ct w)) = trace w @ [?req]"
    by (simp_all add: pc w4 logger_def split: sum.splits)
qed

lemma post_try_result:
  "fst (post_try res w) =
     (case res of
        Inl e \<Rightarrow> Inl e
      | Inr r \<Rightarrow>
          if http_error r then Inl HTTPError
          else (case json_body r of
                  Inl e \<Rightarrow> Inl e
                | Inr payload \<Rightarrow> if is_dict payload then Inr payload else Inl AttributeError))"
  by (simp add: post_try_def dict_get_def is_dict_def split: sum.splits json.splits)

lemma post_command_result:
  "fst (post_command E d c p ct w) =
     (case fst (post_try (server w (length (trace w))
            (command_request E d c p ct (now w (clock_reads w)) (uuid4 w (uuid_draws w)))) w) of
        Inr payload \<Rightarrow> Inr (Some payload)
      | Inl e \<Rightarrow> if is_request_exception e then Inr None else Inl e)"
proof -
  let ?req = "command_request E d c p ct (now w (clock_reads w)) (uuid4 w (uuid_draws w))"
  let ?res = "server w (length (trace w)) ?req"
  let ?w3 = "w\<lparr>clock_reads := Suc (clock_reads w), uuid_draws := Suc (uuid_draws w),
                 log := log w @ [POST_line (req_url ?req)
                   (JObj [(''command'', JStr c), (''parameter'', JStr p), (''commandType'', JStr ct)])],
                 trace := trace w @ [?req]\<rparr>"
  obtain out w4 where pt: "post_try ?res ?w3 = (out, w4)"
    by (cases "post_try ?res ?w3")
  have "fst (post_try ?res ?w3) = fst (post_try ?res w)"
    by (simp only: post_try_result)
  with pt have out: "fst (post_try ?res w) = out"
    by simp
  show ?thesis
    by (simp add: post_command_unfold Let_def pt out split: sum.splits)
qed

lemma post_command_None_iff:
  "fst (post_command E d c p ct w) = Inr None \<longleftrightarrow>
     request_failed (server w (length (trace w))
       (command_request E d c p ct (now w (clock_reads w)) (uuid4 w (uuid_draws w))))"
  by (simp add: post_command_result post_try_result request_failed_def is_request_exception_def
      split: sum.splits)

lemma post_command_handled:
  assumes "reply_handled (server w (length (trace w))
       (command_request E d c p ct (now w (clock_reads w)) (uuid4 w (uuid_draws w))))"
  shows "\<exists>v. fst (post_command E d c p ct w) = Inr v"
  using assms
  by (auto simp add: post_command_result post_try_result reply_handled_def request_failed_def
      is_request_exception_def split: sum.splits)

lemma and_then_Inr: "fst (m w) = Inr x \<Longrightarrow> and_then m f w = f x (snd (m w))"
  by (cases "m w") (simp add: and_then_def)

lemma and_then_Inl: "fst (m w) = Inl e \<Longrightarrow> and_then m f w = (Inl e, snd (m w))"
  by (cases "m w") (simp add: and_then_def)


lemma command_request_method:
  "req_method (command_request E d c p ct secs nonce) = POST"
  by (simp add: command_request_def Let_def)

text \<open>Three commands in a row, as both lamp functions send them.\<close>

lemma three_posts:
  fixes E d a pa b pb c pc w
  defines "run \<equiv>
    and_then (post_command E d a pa ''command'') (\<lambda>_.
    and_then (post_command E d b pb ''command'') (\<lambda>_.
    and_then (post_command E d c pc ''command'') (\<lambda>_ w. (Inr (), w))))"
  defines "P1 \<equiv> signed_command_request E d a pa (now w (clock_reads w)) (uuid4 w (uuid_draws w))"
  defines "P2 \<equiv> signed_command_request E d b pb (now w (clock_reads w + 1)) (uuid4 w (uuid_draws w + 1))"
  defines "P3 \<equiv> signed_command_request E d c pc (now w (clock_reads w + 2)) (uuid4 w (uuid_draws w + 2))"
  shows "\<exists>n. 1 \<le> n \<and> n \<le> 3 \<and> trace (snd (run w)) = trace w @ take n [P1, P2, P3]"
    and "fst (run w) = Inr () \<Longrightarrow> trace (snd (run w)) = trace w @ [P1, P2, P3]"
    and "(\<forall>k req. req_method req = POST \<longrightarrow> reply_handled (server w k req))
      \<Longrightarrow> fst (run w) = Inr ()"
    and "fst (run w) = Inr () \<Longrightarrow>
      clock_reads (snd (run w)) = clock_reads w + 3 \<and> uuid_draws (snd (run w)) = uuid_draws w + 3"
proof -
  let ?m1 = "post_command E d a pa ''command''"
  let ?m2 = "post_command E d b pb ''command''"
  let ?m3 = "post_command E d c pc ''command''"
  let ?w1 = "snd (?m1 w)"
  let ?w2 = "snd (?m2 ?w1)"
  let ?w3 = "snd (?m3 ?w2)"
  have t1: "trace ?w1 = trace w @ [P1]"
    by (simp add: P1_def)
  have t2: "trace ?w2 = trace w @ [P1, P2]"
    by (simp add: P1_def P2_def)
  have t3: "trace ?w3 = trace w @ [P1, P2, P3]"
    by (simp add: P1_def P2_def P3_def)
  have s1: "server ?w1 = server w" and s2: "server ?w2 = server w"
    by simp_all
  consider (a) e where "fst (?m1 w) = Inl e"
    | (b) v e where "fst (?m1 w) = Inr v" "fst (?m2 ?w1) = Inl e"
    | (c) v v' e where "fst (?m1 w) = Inr v" "fst (?m2 ?w1) = Inr v'" "fst (?m3 ?w2) = Inl e"
    | (d) v v' v'' where "fst (?m1 w) = Inr v" "fst (?m2 ?w1) = Inr v'" "fst (?m3 ?w2) = Inr v''"
    by (cases "fst (?m1 w)"; cases "fst (?m2 ?w1)"; cases "fst (?m3 ?w2)") auto
  then have main:
    "(\<exists>n. 1 \<le> n \<and> n \<le> 3 \<and> trace (snd (run w)) = trace w @ take n [P1, P2, P3]) \<and>
     (fst (run w) = Inr () \<longrightarrow> trace (snd (run w)) = trace w @ [P1, P2, P3] \<and>
        clock_reads (snd (run w)) = clock_reads w + 3 \<and> uuid_draws (snd (run w)) = uuid_draws w + 3) \<and>
     ((\<exists>v v' v''. fst (?m1 w) = Inr v \<and> fst (?m2 ?w1) = Inr v' \<and> fst (?m3 ?w2) = Inr v'')
        \<longrightarrow> fst (run w) = Inr ())"
  proof cases
    case a
    then have "run w = (Inl e, ?w1)"
      by (simp add: run_def and_then_Inl)
    with t1 a show ?thesis
      by (auto intro: exI [of _ 1])
  next
    case b
    then have "run w = (Inl e, ?w2)"
      by (simp add: run_def and_then_Inr and_then_Inl)
    with t2 b show ?thesis
      by (auto intro: exI [of _ 2])
  next
    case c
    then have "run w = (Inl e, ?w3)"
      by (simp add: run_def and_then_Inr and_then_Inl)
    with t3 c show ?thesis
      by (auto intro: exI [of _ 3])
  next
    case d
    then have "run w = (Inr (), ?w3)"
      by (simp add: run_def and_then_Inr)
    with t3 show ?thesis
      by (auto intro: exI [of _ 3])
  qed
  from main show "\<exists>n. 1 \<le> n \<and> n \<le> 3 \<and> trace (snd (run w)) = trace w @ take n [P1, P2, P3]"
    by blast
  from main show "fst (run w) = Inr () \<Longrightarrow> trace (snd (run w)) = trace w @ [P1, P2, P3]"
    by blast
  from main show "fst (run w) = Inr () \<Longrightarrow>
      clock_reads (snd (run w)) = clock_reads w + 3 \<and> uuid_draws (snd (run w)) = uuid_draws w + 3"
    by blast
  show "fst (run w) = Inr ()"
    if h: "\<forall>k req. req_method req = POST \<longrightarrow> reply_handled (server w k req)"
  proof -
    have h': "reply_handled (server w k (signed_command_request E d x px secs nonce))"
      for k x px secs nonce
      using h by (simp add: command_request_method)
    obtain v where "fst (?m1 w) = Inr v"
      using post_command_handled [where w = w and E = E and d = d and c = a and p = pa
          and ct = "''command''"] h' by blast
    moreover obtain v' where "fst (?m2 ?w1) = Inr v'"
      using post_command_handled [where w = ?w1 and E = E and d = d and c = b and p = pb
          and ct = "''command''"] h' by (auto simp only: s1)
    moreover obtain v'' where "fst (?m3 ?w2) = Inr v''"
      using post_command_handled [where w = ?w2 and E = E and d = d and c = c and p = pc
          and ct = "''command''"] h' by (auto simp only: s2)
    ultimately show ?thesis
      using main by blast
  qed
qed

subsection \<open>The weather fetch\<close>

lemma fetch_rain_fields [simp]:
  "snd (fetch_rain city w) = w\<lparr>trace := trace w @ [weather_request city]\<rparr>"
  by (simp add: fetch_rain_def http_call_def Let_def)

lemma fetch_rain_result:
  "fst (fetch_rain city w) =
     (case server w (length (trace w)) (weather_request city) of
        Inl e \<Rightarrow> Inl e
      | Inr r \<Rightarrow>
          if http_error r then Inl HTTPError
          else (case json_body r of Inl e \<Rightarrow> Inl e | Inr data \<Rightarrow> chance_of_rain data))"
  by (simp add: fetch_rain_def http_call_def Let_def)

lemma get_today_fields [simp]:
  "now (snd (get_today_rain_percent_max_all city w)) = now w"
  "uuid4 (snd (get_today_rain_percent_max_all city w)) = uuid4 w"
  "server (snd (get_today_rain_percent_max_all city w)) = server w"
  "clock_reads (snd (get_today_rain_percent_max_all city w)) = clock_reads w"
  "uuid_draws (snd (get_today_rain_percent_max_all city w)) = uuid_draws w"
  "trace (snd (get_today_rain_percent_max_all city w)) = trace w @ [weather_request city]"
  "python (snd (get_today_rain_percent_max_all city w)) = python w"
proof -
  obtain res w1 where f: "fetch_rain city w = (res, w1)"
    by (cases "fetch_rain city w")
  then have w1: "w1 = w\<lparr>trace := trace w @ [weather_request city]\<rparr>"
    using fetch_rain_fields [of city w] by simp
  show "now (snd (get_today_rain_percent_max_all city w)) = now w"
    "uuid4 (snd (get_today_rain_percent_max_all city w)) = uuid4 w"
    "server (snd (get_today_rain_percent_max_all city w)) = server w"
    "clock_reads (snd (get_today_rain_percent_max_all city w)) = clock_reads w"
    "uuid_draws (snd (get_today_rain_percent_max_all city w)) = uuid_draws w"
    "trace (snd (get_today_rain_percent_max_all city w)) = trace w @ [weather_request city]"
    "python (snd (get_today_rain_percent_max_all city w)) = python w"
    by (simp_all add: get_today_rain_percent_max_all_def f w1 logger_def
        split: sum.splits prod.splits)
qed

lemma get_today_result:
  "fst (get_today_rain_percent_max_all city w) =
     (case fst (fetch_rain city w) of
        Inl e \<Rightarrow> Inr 0
      | Inr rain \<Rightarrow>
          (case max_daylight (python w) rain of Inl e \<Rightarrow> Inl e | Inr (a, b, c, val) \<Rightarrow> Inr val))"
proof -
  obtain res w1 where f: "fetch_rain city w = (res, w1)"
    by (cases "fetch_rain city w")
  then have "python w1 = python w"
    using fetch_rain_fields [of city w] by simp
  with f show ?thesis
    by (simp add: get_today_rain_percent_max_all_def split: sum.splits prod.splits)
qed

lemma to_int_pct_falsy: "\<not> truthy v \<Longrightarrow> to_int_pct py v = Inr 0"
  by (simp add: to_int_pct_def List.map_filter_simps)

lemma slot_pct_cong:
  "map_of rain' k = map_of rain k \<Longrightarrow> slot_pct py (JObj rain') k = slot_pct py (JObj rain) k"
  by (simp add: slot_pct_def dict_get_def)

lemma max_daylight_cong:
  assumes "map_of rain' ''T06_12'' = map_of rain ''T06_12''"
    "map_of rain' ''T12_18'' = map_of rain ''T12_18''"
    "map_of rain' ''T18_24'' = map_of rain ''T18_24''"
  shows "max_daylight py (JObj rain') = max_daylight py (JObj rain)"
  unfolding max_daylight_def
  by (simp only: slot_pct_cong [OF assms(1)] slot_pct_cong [OF assms(2)]
      slot_pct_cong [OF assms(3)])

lemma max_daylight_returns:
  assumes "slot_pct py rain ''T06_12'' = Inr a" "slot_pct py rain ''T12_18'' = Inr b"
    "slot_pct py rain ''T18_24'' = Inr c"
  shows "max_daylight py rain = Inr (a, b, c, max a (max b c))"
  unfolding max_daylight_def by (simp only: assms sum.case)

lemma chance_of_rain_Inr_iff:
  "chance_of_rain data = Inr v \<longleftrightarrow>
     (\<exists>kvs today xs. data = JObj kvs \<and> map_of kvs ''forecasts'' = Some (JArr (JObj today # xs))
        \<and> map_of today ''chanceOfRain'' = Some v)"
  by (auto simp add: chance_of_rain_def subscript_key_def subscript_0_def
      split: sum.splits json.splits option.splits list.splits)

subsection \<open>The lamp functions and main\<close>


lemma exchanges_append [simp]: "trace w' = trace w @ xs \<Longrightarrow> exchanges w w' = xs"
  by (simp add: exchanges_def)

lemma set_lamp_rgb_chain:
  "set_lamp_rgb E d (r0, g0, b0) br =
     and_then (post_command E d ''setBrightness'' (str_int (clamp_brightness br)) ''command'') (\<lambda>_.
     and_then (post_command E d ''setColor''
        (str_int (max 0 (min 255 r0)) @ '':'' @ str_int (max 0 (min 255 g0)) @ '':''
          @ str_int (max 0 (min 255 b0))) ''command'') (\<lambda>_.
     and_then (post_command E d ''turnOn'' ''default'' ''command'') (\<lambda>_ w. (Inr (), w))))"
  by (simp only: set_lamp_rgb_def Let_def prod.case)

lemma set_lamp_ct_chain:
  "set_lamp_ct E d ct0 br =
     and_then (post_command E d ''setBrightness'' (str_int (clamp_brightness br)) ''command'') (\<lambda>_.
     and_then (post_command E d ''setColorTemperature'' (str_int (max 2700 (min 6500 ct0)))
        ''command'') (\<lambda>_.
     and_then (post_command E d ''turnOn'' ''default'' ''command'') (\<lambda>_ w. (Inr (), w))))"
  by (simp only: set_lamp_ct_def Let_def)


lemma logger_fields [simp]:
  "now (logger l w) = now w" "uuid4 (logger l w) = uuid4 w" "server (logger l w) = server w"
  "clock_reads (logger l w) = clock_reads w" "uuid_draws (logger l w) = uuid_draws w"
  "trace (logger l w) = trace w"
  by (simp_all add: logger_def)

lemma set_lamp_rgb_posts:
  fixes E d r0 g0 b0 br w
  defines "w' \<equiv> snd (set_lamp_rgb E d (r0, g0, b0) br w)"
  defines "ps \<equiv> three_signed_posts E d (str_int (clamp_brightness br)) ''setColor''
      (rgb_text (max 0 (min 255 r0)) (max 0 (min 255 g0)) (max 0 (min 255 b0))) w"
  shows "\<exists>n. 1 \<le> n \<and> n \<le> 3 \<and> trace w' = trace w @ take n ps"
    and "fst (set_lamp_rgb E d (r0, g0, b0) br w) = Inr () \<Longrightarrow>
      trace w' = trace w @ ps \<and> clock_reads w' = clock_reads w + 3
      \<and> uuid_draws w' = uuid_draws w + 3"
    and "(\<forall>k req. req_method req = POST \<longrightarrow> reply_handled (server w k req)) \<Longrightarrow>
      fst (set_lamp_rgb E d (r0, g0, b0) br w) = Inr ()"
  unfolding w'_def ps_def set_lamp_rgb_chain three_signed_posts_def rgb_text_def
  using three_posts [where E = E and d = d and a = "''setBrightness''"
      and pa = "str_int (clamp_brightness br)" and b = "''setColor''"
      and pb = "str_int (max 0 (min 255 r0)) @ '':'' @ str_int (max 0 (min 255 g0)) @ '':''
          @ str_int (max 0 (min 255 b0))" and c = "''turnOn''" and pc = "''default''" and w = w]
  by blast+

lemma set_lamp_ct_posts:
  fixes E d ct0 br w
  defines "w' \<equiv> snd (set_lamp_ct E d ct0 br w)"
  defines "ps \<equiv> three_signed_posts E d (str_int (clamp_brightness br)) ''setColorTemperature''
      (str_int (max 2700 (min 6500 ct0))) w"
  shows "\<exists>n. 1 \<le> n \<and> n \<le> 3 \<and> trace w' = trace w @ take n ps"
    and "fst (set_lamp_ct E d ct0 br w) = Inr () \<Longrightarrow>
      trace w' = trace w @ ps \<and> clock_reads w' = clock_reads w + 3
      \<and> uuid_draws w' = uuid_draws w + 3"
    and "(\<forall>k req. req_method req = POST \<longrightarrow> reply_handled (server w k req)) \<Longrightarrow>
      fst (set_lamp_ct E d ct0 br w) = Inr ()"
  unfolding w'_def ps_def set_lamp_ct_chain three_signed_posts_def
  using three_posts [where E = E and d = d and a = "''setBrightness''"
      and pa = "str_int (clamp_brightness br)" and b = "''setColorTemperature''"
      and pb = "str_int (max 2700 (min 6500 ct0))" and c = "''turnOn''" and pc = "''default''"
      and w = w]
  by blast+

lemma three_signed_posts_POST:
  "p \<in> set (three_signed_posts E d bt cc ct w) \<Longrightarrow> req_method p = POST"
  by (auto simp add: three_signed_posts_def command_request_method)

lemma length_three_signed_posts [simp]: "length (three_signed_posts E d bt cc ct w) = 3"
  by (simp add: three_signed_posts_def)

text \<open>The lamp call of \<^verbatim>\<open>main\<close>, in either mode.\<close>

lemma main_unfold:
  "main E w =
     (case fst (get_today_rain_percent_max_all (CITY_CODE E) w) of
        Inl e \<Rightarrow> (Inl e, snd (get_today_rain_percent_max_all (CITY_CODE E) w))
      | Inr rain \<Rightarrow>
          (let w0 = snd (get_today_rain_percent_max_all (CITY_CODE E) w);
               w1 = logger (Rain_chance_used rain) w0
           in if USE_COLOR_TEMPERATURE E then
                and_then (set_lamp_ct E (DEVICE_ID E) (map_rain_to_ct rain) (PyInt 100))
                  (\<lambda>_ w. (Inr True, w)) (logger (Set_CT (map_rain_to_ct rain) 100) w1)
              else
                and_then (set_lamp_rgb E (DEVICE_ID E) (map_rain_to_rgb rain) (PyInt 100))
                  (\<lambda>_ w. (Inr True, w)) (logger (Set_RGB (map_rain_to_rgb rain) 100) w1)))"
  by (cases "get_today_rain_percent_max_all (CITY_CODE E) w")
    (simp add: main_def and_then_def Let_def split: sum.splits)

lemma and_then_const:
  "and_then m (\<lambda>_ w. (Inr True, w)) w =
     (case fst (m w) of Inl e \<Rightarrow> (Inl e, snd (m w)) | Inr _ \<Rightarrow> (Inr True, snd (m w)))"
  by (cases "m w") (simp add: and_then_def split: sum.splits)

lemma main_exchanges:
  "\<exists>ps. length ps \<le> 3 \<and> (\<forall>p\<in>set ps. req_method p = POST) \<and>
     trace (snd (main E w)) = trace w @ weather_request (CITY_CODE E) # ps \<and>
     (fst (main E w) = Inr True \<longrightarrow> length ps = 3)"
proof (cases "fst (get_today_rain_percent_max_all (CITY_CODE E) w)")
  case (Inl e)
  then have "main E w = (Inl e, snd (get_today_rain_percent_max_all (CITY_CODE E) w))"
    by (simp add: main_unfold)
  then show ?thesis
    by (intro exI [of _ "[]"]) simp
next
  case (Inr rain)
  let ?w0 = "snd (get_today_rain_percent_max_all (CITY_CODE E) w)"
  let ?w1 = "logger (Rain_chance_used rain) ?w0"
  obtain r0 g0 b0 where rgb: "map_rain_to_rgb rain = (r0, g0, b0)"
    by (cases "map_rain_to_rgb rain")
  show ?thesis
  proof (cases "USE_COLOR_TEMPERATURE E")
    case True
    let ?w2 = "logger (Set_CT (map_rain_to_ct rain) 100) ?w1"
    let ?m = "set_lamp_ct E (DEVICE_ID E) (map_rain_to_ct rain) (PyInt 100)"
    let ?ps = "three_signed_posts E (DEVICE_ID E) (str_int (clamp_brightness (PyInt 100)))
      ''setColorTemperature'' (str_int (max 2700 (min 6500 (map_rain_to_ct rain)))) ?w2"
    have m: "main E w = (case fst (?m ?w2) of Inl e \<Rightarrow> (Inl e, snd (?m ?w2))
        | Inr _ \<Rightarrow> (Inr True, snd (?m ?w2)))"
      using Inr True by (simp add: main_unfold Let_def and_then_const)
    obtain n where n: "1 \<le> n" "n \<le> 3" "trace (snd (?m ?w2)) = trace ?w2 @ take n ?ps"
      using set_lamp_ct_posts(1) [of E "DEVICE_ID E" "map_rain_to_ct rain" "PyInt 100" ?w2]
      by blast
    have full: "trace (snd (?m ?w2)) = trace ?w2 @ ?ps" if "fst (?m ?w2) = Inr ()"
      using set_lamp_ct_posts(2) [OF that] by blast
    have tr: "trace ?w2 = trace w @ [weather_request (CITY_CODE E)]"
      by simp
    show ?thesis
    proof (cases "fst (?m ?w2)")
      case (Inl e)
      with m n tr show ?thesis
        by (intro exI [of _ "take n ?ps"])
          (auto dest: in_set_takeD three_signed_posts_POST)
    next
      case (Inr u)
      with m full tr show ?thesis
        by (intro exI [of _ ?ps]) (auto dest: three_signed_posts_POST)
    qed
  next
    case False
    let ?w2 = "logger (Set_RGB (r0, g0, b0) 100) ?w1"
    let ?m = "set_lamp_rgb E (DEVICE_ID E) (r0, g0, b0) (PyInt 100)"
    let ?ps = "three_signed_posts E (DEVICE_ID E) (str_int (clamp_brightness (PyInt 100)))
      ''setColor'' (rgb_text (max 0 (min 255 r0)) (max 0 (min 255 g0)) (max 0 (min 255 b0))) ?w2"
    have m: "main E w = (case fst (?m ?w2) of Inl e \<Rightarrow> (Inl e, snd (?m ?w2))
        | Inr _ \<Rightarrow> (Inr True, snd (?m ?w2)))"
      using Inr False by (simp add: main_unfold Let_def and_then_const rgb)
    obtain n where n: "1 \<le> n" "n \<le> 3" "trace (snd (?m ?w2)) = trace ?w2 @ take n ?ps"
      using set_lamp_rgb_posts(1) [of E "DEVICE_ID E" r0 g0 b0 "PyInt 100" ?w2]
      by blast
    have full: "trace (snd (?m ?w2)) = trace ?w2 @ ?ps" if "fst (?m ?w2) = Inr ()"
      using set_lamp_rgb_posts(2) [OF that] by blast
    have tr: "trace ?w2 = trace w @ [weather_request (CITY_CODE E)]"
      by simp
    show ?thesis
    proof (cases "fst (?m ?w2)")
      case (Inl e)
      with m n tr show ?thesis
        by (intro exI [of _ "take n ?ps"])
          (auto dest: in_set_takeD three_signed_posts_POST)
    next
      case (Inr u)
      with m full tr show ?thesis
        by (intro exI [of _ ?ps]) (auto dest: three_signed_posts_POST)
    qed
  qed
qed

lemma main_returns:
  assumes "fst (get_today_rain_percent_max_all (CITY_CODE E) w) = Inr rain"
    and "\<forall>k req. req_method req = POST \<longrightarrow> reply_handled (server w k req)"
  shows "fst (main E w) = Inr True"
proof -
  let ?w0 = "snd (get_today_rain_percent_max_all (CITY_CODE E) w)"
  obtain r0 g0 b0 where rgb: "map_rain_to_rgb rain = (r0, g0, b0)"
    by (cases "map_rain_to_rgb rain")
  have h: "\<forall>k req. req_method req = POST \<longrightarrow> reply_handled (server (logger l (logger l' ?w0)) k req)"
    for l l'
    using assms(2) by simp
  show ?thesis
  proof (cases "USE_COLOR_TEMPERATURE E")
    case True
    with assms(1) set_lamp_ct_posts(3) [OF h] show ?thesis
      by (simp add: main_unfold Let_def and_then_const)
  next
    case False
    with assms(1) set_lamp_rgb_posts(3) [OF h] show ?thesis
      by (simp add: main_unfold Let_def and_then_const rgb)
  qed
qed

subsection \<open>Decimal numerals\<close>

lemma of_char_char_of_digit: "d < 10 \<Longrightarrow> (of_char (char_of (48 + d :: nat)) :: nat) = 48 + d"
  by (simp add: of_char_of)

lemma str_nat_digits: "\<forall>c\<in>set (str_nat n). is_digit c"
proof (induction n rule: str_nat.induct)
  case (1 n)
  show ?case
  proof (cases "n < 10")
    case True
    then show ?thesis
      by (subst str_nat.simps) (simp add: is_digit_def of_char_char_of_digit)
  next
    case False
    have "n mod 10 < 10"
      by simp
    then have "is_digit (char_of (48 + n mod 10))"
      unfolding is_digit_def by (simp only: of_char_char_of_digit) simp
    with False 1 show ?thesis
      by (subst str_nat.simps) simp
  qed
qed

lemma int_of_digits_snoc:
  "int_of_digits (ds @ [c]) = 10 * int_of_digits ds + (of_char c - 48)"
  by (simp add: int_of_digits_def)

lemma of_char_char_of_digit_int:
  "d < 10 \<Longrightarrow> (of_char (char_of (48 + d :: nat)) :: int) = 48 + int d"
proof -
  assume "d < 10"
  then have "(of_char (char_of (48 + d)) :: nat) = 48 + d"
    by (rule of_char_char_of_digit)
  then have "int (of_char (char_of (48 + d))) = int (48 + d)"
    by (rule arg_cong)
  then show ?thesis
    by (simp only: of_nat_of_char of_nat_add of_nat_numeral)
qed

lemma int_of_digits_str_nat: "int_of_digits (str_nat n) = int n"
proof (induction n rule: str_nat.induct)
  case (1 n)
  show ?case
  proof (cases "n < 10")
    case True
    then show ?thesis
      by (subst str_nat.simps) (simp add: int_of_digits_def of_char_char_of_digit_int)
  next
    case False
    have "n mod 10 < 10"
      by simp
    note d = of_char_char_of_digit_int [OF this]
    from False 1 have ih: "int_of_digits (str_nat (n div 10)) = int (n div 10)"
      by simp
    have "int_of_digits (str_nat n) = 10 * int (n div 10) + int (n mod 10)"
      using False by (subst str_nat.simps) (simp add: int_of_digits_snoc ih d)
    also have "\<dots> = int n"
      by (simp add: of_nat_div of_nat_mod)
    finally show ?thesis .
  qed
qed


lemma str_nat_nonempty: "str_nat n \<noteq> []"
  by (subst str_nat.simps) simp

subsection \<open>The example run\<close>


lemma demo_reply:
  "server (demo_world f p) k (weather_request city) = Inr \<lparr>http_error = False, json_body = Inr f\<rparr>"
  by (simp add: demo_world_def demo_server_def weather_request_def)

lemma chance_of_rain_forecast_of: "chance_of_rain (forecast_of slots) = Inr (JObj slots)"
  by (simp add: forecast_of_def chance_of_rain_def subscript_key_def subscript_0_def)

lemma demo_fetch:
  "fst (fetch_rain city (demo_world (forecast_of slots) p)) = Inr (JObj slots)"
  by (simp add: fetch_rain_result demo_reply chance_of_rain_forecast_of)

lemma demo_python:
  "int_max_str_digits (python (demo_world f p)) = 4300"
  "unicode_decimal (python (demo_world f p)) =
     (\<lambda>c. if 65296 \<le> c \<and> c \<le> 65305 then Some (c - 65296) else None)"
  by (simp_all add: demo_world_def)

lemma demo_max_daylight:
  "max_daylight (python (demo_world f p)) (JObj demo_slots) = Inr (10, 40, 0, 40)"
  by (simp add: max_daylight_def slot_pct_def dict_get_def demo_slots_def to_int_pct_def
      decimal_of_def demo_python List.map_filter_simps Let_def)

lemma demo_rain:
  "fst (get_today_rain_percent_max_all city (demo_world demo_forecast p)) = Inr 40"
  by (simp add: get_today_result demo_fetch demo_forecast_def demo_max_daylight)

text \<open>The fullwidth text \<open>40%\<close> (nine bytes in UTF-8) reads as \<open>40\<close>.\<close>

lemma fullwidth_percent:
  "to_int_pct (python (demo_world f p))
     (JStr [CHR 0xEF, CHR 0xBC, CHR 0x94, CHR 0xEF, CHR 0xBC, CHR 0x90, CHR 0xEF, CHR 0xBC, CHR 0x85])
   = Inr 40"
  by (simp add: to_int_pct_def decimal_of_def demo_python List.map_filter_simps Let_def)

lemma utf8_decode_replicate_ascii:
  "(of_char c :: nat) < 128 \<Longrightarrow> utf8_decode (replicate n c) = replicate n (of_char c)"
proof (induction n rule: less_induct)
  case (less n)
  show ?case
  proof (cases "n < 4")
    case True
    then consider "n = 0" | "n = 1" | "n = 2" | "n = 3"
      by linarith
    then show ?thesis
      using less.prems by cases (simp_all add: numeral_2_eq_2 numeral_3_eq_3)
  next
    case False
    define m where "m = n - 4"
    with False have m: "n = Suc (Suc (Suc (Suc m)))"
      by simp
    have "utf8_decode (replicate (Suc (Suc (Suc m))) c) = replicate (Suc (Suc (Suc m))) (of_char c)"
      using less.IH [of "Suc (Suc (Suc m))"] less.prems m by simp
    with less.prems show ?thesis
      by (simp add: m)
  qed
qed

lemma map_filter_replicate:
  "f x = Some y \<Longrightarrow> List.map_filter f (replicate n x) = replicate n y"
  by (induction n) (simp_all add: List.map_filter_simps)

lemma too_many_digits:
  assumes "0 < int_max_str_digits py" "int_max_str_digits py < n"
  shows "to_int_pct py (JStr (replicate n CHR ''9'')) = Inl ValueError"
proof -
  have "utf8_decode (replicate n CHR ''9'') = replicate n 57"
    using utf8_decode_replicate_ascii [of "CHR ''9''" n] by simp
  moreover have "decimal_of py 57 = Some 9"
    by (simp add: decimal_of_def)
  ultimately have "List.map_filter (decimal_of py) (utf8_decode (replicate n CHR ''9''))
      = replicate n 9"
    by (simp add: map_filter_replicate)
  with assms show ?thesis
    by (auto simp add: to_int_pct_def Let_def)
qed

text \<open>
  Claim C3 holds of the forecasts the weather service sends: when the three slots
  are read, the result is their maximum, and no other slot matters.
\<close>

lemma rain_percent_max_of_three_slots:
  assumes "fst (fetch_rain city w) = Inr rain"
    and "slot_pct (python w) rain ''T06_12'' = Inr a"
    and "slot_pct (python w) rain ''T12_18'' = Inr b"
    and "slot_pct (python w) rain ''T18_24'' = Inr c"
  shows "fst (get_today_rain_percent_max_all city w) = Inr (max a (max b c))"
  using assms(1) max_daylight_returns [OF assms(2-4)] by (simp add: get_today_result)

text \<open>
  Claim C3, where the code departs from it: the three slots are read after the
  \<^verbatim>\<open>try\<close>, so a slot that \<^verbatim>\<open>_to_int_pct\<close> cannot read makes the function raise
  instead of counting as \<open>0\<close>. With the fetch and the extraction succeeding, a slot
  holding the number \<open>40\<close> raises \<open>TypeError\<close>, and a slot holding a text of 4301
  digits raises \<open>ValueError\<close> under the default digit limit; the same forecast with
  the text \<open>40%\<close> gives \<open>40\<close>.
\<close>

theorem rain_percent_raises_on_unreadable_slot:
  "fst (fetch_rain ''130010'' (demo_world (forecast_of [(''T06_12'', JNum 40)]) demo_payload))
     = Inr (JObj [(''T06_12'', JNum 40)]) \<and>
   fst (get_today_rain_percent_max_all ''130010''
      (demo_world (forecast_of [(''T06_12'', JNum 40)]) demo_payload)) = Inl TypeError \<and>
   fst (fetch_rain ''130010''
      (demo_world (forecast_of [(''T06_12'', JStr long_digits)]) demo_payload))
     = Inr (JObj [(''T06_12'', JStr long_digits)]) \<and>
   fst (get_today_rain_percent_max_all ''130010''
      (demo_world (forecast_of [(''T06_12'', JStr long_digits)]) demo_payload))
     = Inl ValueError \<and>
   fst (get_today_rain_percent_max_all ''130010''
      (demo_world (forecast_of [(''T06_12'', JStr ''40%'')]) demo_payload)) = Inr 40"
proof -
  let ?py = "\<lparr>unicode_decimal =
      (\<lambda>c. if 65296 \<le> c \<and> c \<le> 65305 then Some (c - 65296) else None) :: nat \<Rightarrow> nat option,
    int_max_str_digits = 4300\<rparr>"
  have py: "python (demo_world f p) = ?py" for f p
    by (simp add: demo_world_def)
  have "to_int_pct ?py (JStr long_digits) = Inl ValueError"
    unfolding long_digits_def by (rule too_many_digits) simp_all
  then have a: "max_daylight ?py (JObj [(''T06_12'', JStr long_digits)])
      = Inl ValueError"
    by (simp add: max_daylight_def slot_pct_def dict_get_def)
  have b: "max_daylight ?py (JObj [(''T06_12'', JNum 40)]) = Inl TypeError"
    by (simp add: max_daylight_def slot_pct_def dict_get_def to_int_pct_def)
  have c: "max_daylight ?py (JObj [(''T06_12'', JStr ''40%'')]) = Inr (40, 0, 0, 40)"
    by (simp add: max_daylight_def slot_pct_def dict_get_def to_int_pct_def decimal_of_def
        List.map_filter_simps Let_def)
  show ?thesis
    by (simp add: get_today_result demo_fetch py a b c)
qed

text \<open>
  Claim C4: \<^verbatim>\<open>get_today_rain_percent_max_all\<close> returns \<open>0\<close>, and does not raise, when
  the fetch step fails: the GET raises, the status check raises, the body is not
  JSON, or the response lacks \<^verbatim>\<open>forecasts[0].chanceOfRain\<close>.
\<close>

theorem rain_percent_zero_on_fetch_failure:
  "(((\<exists>e. server w (length (trace w)) (weather_request city) = Inl e) \<or>
     (\<exists>r. server w (length (trace w)) (weather_request city) = Inr r \<and>
        (http_error r \<or> (\<exists>e. json_body r = Inl e) \<or>
         (\<exists>data e. json_body r = Inr data \<and> chance_of_rain data = Inl e)))) \<longrightarrow>
      fst (get_today_rain_percent_max_all city w) = Inr 0) \<and>
   ((\<exists>e. chance_of_rain data = Inl e) \<longleftrightarrow>
      (\<nexists>kvs today xs v. data = JObj kvs \<and>
         map_of kvs ''forecasts'' = Some (JArr (JObj today # xs)) \<and>
         map_of today ''chanceOfRain'' = Some v))"
proof -
  have "(\<exists>e. chance_of_rain data = Inl e) \<longleftrightarrow> (\<nexists>v. chance_of_rain data = Inr v)"
    by (cases "chance_of_rain data") simp_all
  also have "\<dots> \<longleftrightarrow>
      (\<nexists>kvs today xs v. data = JObj kvs \<and>
         map_of kvs ''forecasts'' = Some (JArr (JObj today # xs)) \<and>
         map_of today ''chanceOfRain'' = Some v)"
    by (simp only: chance_of_rain_Inr_iff) blast
  finally have lacks: "(\<exists>e. chance_of_rain data = Inl e) \<longleftrightarrow>
      (\<nexists>kvs today xs v. data = JObj kvs \<and>
         map_of kvs ''forecasts'' = Some (JArr (JObj today # xs)) \<and>
         map_of today ''chanceOfRain'' = Some v)" .
  let ?reply = "server w (length (trace w)) (weather_request city)"
  have zero: "fst (get_today_rain_percent_max_all city w) = Inr 0"
    if "fst (fetch_rain city w) = Inl e" for e
    using that by (simp add: get_today_result)
  have a: "fst (get_today_rain_percent_max_all city w) = Inr 0" if "?reply = Inl e" for e
    by (rule zero [of e]) (simp add: fetch_rain_result that)
  have b: "fst (get_today_rain_percent_max_all city w) = Inr 0"
    if "?reply = Inr r" "http_error r" for r
    by (rule zero [of HTTPError]) (simp add: fetch_rain_result that)
  have c: "fst (get_today_rain_percent_max_all city w) = Inr 0"
    if "?reply = Inr r" "json_body r = Inl e" for r e
    by (cases "http_error r") (simp_all add: b that zero [of e] fetch_rain_result)
  have d: "fst (get_today_rain_percent_max_all city w) = Inr 0"
    if "?reply = Inr r" "json_body r = Inr data'" "chance_of_rain data' = Inl e" for r data' e
    by (cases "http_error r") (simp_all add: b that zero [of e] fetch_rain_result)
  from a b c d have "((\<exists>e. ?reply = Inl e) \<or>
     (\<exists>r. ?reply = Inr r \<and>
        (http_error r \<or> (\<exists>e. json_body r = Inl e) \<or>
         (\<exists>data e. json_body r = Inr data \<and> chance_of_rain data = Inl e)))) \<longrightarrow>
      fst (get_today_rain_percent_max_all city w) = Inr 0"
    by blast
  with lacks show ?thesis
    by (rule conjI [rotated])
qed

theorem rain_percent_zero_on_fetch_failure_witness:
  "fst (get_today_rain_percent_max_all ''130010''
      ((demo_world demo_forecast demo_payload)\<lparr>server := \<lambda>k req. Inl Timeout\<rparr>)) = Inr 0 \<and>
   fst (get_today_rain_percent_max_all ''130010'' (demo_world (JObj []) demo_payload)) = Inr 0"
proof -
  let ?w1 = "(demo_world demo_forecast demo_payload)\<lparr>server := \<lambda>k req. Inl Timeout\<rparr>"
  let ?w2 = "demo_world (JObj []) demo_payload"
  have "\<exists>e. server ?w1 (length (trace ?w1)) (weather_request ''130010'') = Inl e"
    by simp
  then have a: "fst (get_today_rain_percent_max_all ''130010'' ?w1) = Inr 0"
    by (rule rain_percent_zero_on_fetch_failure [THEN conjunct1, THEN mp, OF disjI1])
  have c: "chance_of_rain (JObj []) = Inl KeyError"
    by (simp add: chance_of_rain_def subscript_key_def)
  have "\<exists>r. server ?w2 (length (trace ?w2)) (weather_request ''130010'') = Inr r \<and>
      (http_error r \<or> (\<exists>e. json_body r = Inl e) \<or>
       (\<exists>data e. json_body r = Inr data \<and> chance_of_rain data = Inl e))"
    by (rule exI [of _ "\<lparr>http_error = False, json_body = Inr (JObj [])\<rparr>"])
      (simp add: demo_reply c)
  then have b: "fst (get_today_rain_percent_max_all ''130010'' ?w2) = Inr 0"
    by (rule rain_percent_zero_on_fetch_failure [THEN conjunct1, THEN mp, OF disjI2])
  from a b show ?thesis
    by (rule conjI)
qed

lemma weather_request_fields:
  "req_method (weather_request city) = GET"
  "req_url (weather_request city) = WEATHER_URL @ ''/'' @ city"
  "req_headers (weather_request city) = []"
  "req_auth (weather_request city) = None"
  "req_data (weather_request city) = None"
  "req_timeout (weather_request city) = 10"
  by (simp_all add: weather_request_def HTTP_TIMEOUT_def)

lemma weather_request_not_authenticated: "\<not> authenticated (weather_request city)"
  by (simp add: authenticated_def weather_request_fields)

text \<open>
  Claim C7, as the code has it: the one request that
  \<^verbatim>\<open>get_today_rain_percent_max_all\<close> issues is a GET of the forecast URL followed by
  the city code, with no header, no credentials and no body: it carries no
  authentication material, whereas every command request does.
\<close>

theorem weather_get_carries_no_authentication:
  "exchanges w (snd (get_today_rain_percent_max_all city w)) = [weather_request city] \<and>
   req_method (weather_request city) = GET \<and>
   req_url (weather_request city) = WEATHER_URL @ ''/'' @ city \<and>
   req_headers (weather_request city) = [] \<and>
   req_auth (weather_request city) = None \<and>
   req_data (weather_request city) = None \<and>
   \<not> authenticated (weather_request city) \<and>
   authenticated (signed_command_request E d c p secs nonce)"
  by (simp add: weather_request_fields weather_request_not_authenticated)
    (simp add: authenticated_def command_request_def Let_def)

theorem weather_get_carries_no_authentication_witness:
  "exchanges (demo_world demo_forecast demo_payload)
     (snd (get_today_rain_percent_max_all ''130010'' (demo_world demo_forecast demo_payload)))
   = [\<lparr>req_method = GET, req_url = ''https://weather.tsukumijima.net/api/forecast/city/130010'',
       req_headers = [], req_auth = None, req_data = None, req_timeout = 10\<rparr>]"
  using weather_get_carries_no_authentication
    [of "demo_world demo_forecast demo_payload" "''130010''"]
  by (simp add: weather_request_def WEATHER_URL_def HTTP_TIMEOUT_def)

theorem weather_get_authenticated_counterexample:
  "\<not> authenticated (hd (exchanges (demo_world demo_forecast demo_payload)
     (snd (get_today_rain_percent_max_all ''130010'' (demo_world demo_forecast demo_payload)))))"
  by (simp add: weather_request_not_authenticated)

subsection \<open>Base64\<close>

lemma takeWhile_nth_distinct:
  "distinct xs \<Longrightarrow> k < length xs \<Longrightarrow> length (takeWhile (\<lambda>x. x \<noteq> xs ! k) xs) = k"
proof (induction xs arbitrary: k)
  case Nil
  then show ?case by simp
next
  case (Cons x xs)
  show ?case
  proof (cases k)
    case 0
    then show ?thesis by simp
  next
    case (Suc j)
    with Cons.prems have "xs ! j \<in> set xs" "x \<notin> set xs"
      by simp_all
    then have "x \<noteq> xs ! j"
      by blast
    with Suc Cons show ?thesis
      by simp
  qed
qed

lemma b64_alphabet_distinct: "distinct b64_alphabet" and b64_alphabet_length: "length b64_alphabet = 64"
  by (simp_all add: b64_alphabet_def)

lemma b64_index_char: "b64_index (b64_char k) = Some (k mod 64)"
proof -
  have "k mod 64 < length b64_alphabet"
    by (simp add: b64_alphabet_length)
  from takeWhile_nth_distinct [OF b64_alphabet_distinct this] show ?thesis
    by (simp add: b64_index_def b64_char_def Let_def)
qed

lemma b64_char_not_pad: "b64_char k \<noteq> CHR ''=''"
proof -
  have "CHR ''='' \<notin> set b64_alphabet"
    by (simp add: b64_alphabet_def)
  moreover have "b64_char k \<in> set b64_alphabet"
    by (simp add: b64_char_def b64_alphabet_length)
  ultimately show ?thesis
    by metis
qed


lemma of_char_less_256: "(of_char c :: nat) < 256"
  using of_char_mod_256 [of c, where ?'a = nat] by (metis mod_less_divisor zero_less_numeral)

lemma b64_group_bounds:
  fixes x y z :: nat
  assumes "x < 256" "y < 256" "z < 256"
  shows "x div 4 < 64" "x mod 4 * 16 + y div 16 < 64" "y mod 16 * 4 + z div 64 < 64"
    "x mod 4 * 16 < 64" "y mod 16 * 4 < 64" "z mod 64 < 64"
  using assms by simp_all

lemma b64_group_first:
  fixes x y :: nat
  assumes "y < 256"
  shows "x div 4 * 4 + (x mod 4 * 16 + y div 16) div 16 = x"
proof -
  from assms have "y div 16 < 16"
    by simp
  then have "(x mod 4 * 16 + y div 16) div 16 = x mod 4"
    by simp
  then show ?thesis
    by simp
qed

lemma b64_group_second:
  fixes x y z :: nat
  assumes "y < 256" "z < 256"
  shows "(x mod 4 * 16 + y div 16) mod 16 * 16 + (y mod 16 * 4 + z div 64) div 4 = y"
proof -
  from assms have "y div 16 < 16" "z div 64 < 4"
    by simp_all
  then have "(x mod 4 * 16 + y div 16) mod 16 = y div 16"
    "(y mod 16 * 4 + z div 64) div 4 = y mod 16"
    by simp_all
  then show ?thesis
    by simp
qed

lemma b64_group_third:
  fixes y z :: nat
  assumes "z < 256"
  shows "(y mod 16 * 4 + z div 64) mod 4 * 64 + z mod 64 = z"
proof -
  from assms have "z div 64 < 4"
    by simp
  then have "(y mod 16 * 4 + z div 64) mod 4 = z div 64"
    by simp
  then show ?thesis
    by simp
qed

lemma b64_index_char_small: "k < 64 \<Longrightarrow> b64_index (b64_char k) = Some k"
  by (simp add: b64_index_char)

text \<open>Decoding reads back what encoding wrote.\<close>

lemma b64decode_b64encode: "b64decode (b64encode bs) = Some bs"
proof (induction bs rule: b64encode.induct)
  case 1
  then show ?case by simp
next
  case (2 a)
  let ?x = "of_char a :: nat"
  have x: "?x < 256" by (rule of_char_less_256)
  from b64_group_first [where x = ?x and y = 0] have "?x div 4 * 4 + ?x mod 4 * 16 div 16 = ?x"
    by simp
  with b64_group_bounds [OF x x x] show ?case
    by (simp add: Let_def b64_index_char_small b64_char_not_pad)
next
  case (3 a b)
  let ?x = "of_char a :: nat" and ?y = "of_char b :: nat"
  have x: "?x < 256" and y: "?y < 256" by (rule of_char_less_256)+
  have "v div 16 < 16" if "v < 256" for v :: nat
    using that by simp
  from this [OF y] have "?y div 16 < 16" .
  then have "(?x mod 4 * 16 + ?y div 16) mod 16 = ?y div 16"
    by simp
  then have "(?x mod 4 * 16 + ?y div 16) mod 16 * 16 + ?y mod 16 * 4 div 4 = ?y"
    by simp
  with b64_group_bounds [OF x y y] b64_group_first [OF y, where x = ?x] show ?case
    by (simp add: Let_def b64_index_char_small b64_char_not_pad)
next
  case (4 a b c rest)
  let ?x = "of_char a :: nat" and ?y = "of_char b :: nat" and ?z = "of_char c :: nat"
  have x: "?x < 256" and y: "?y < 256" and z: "?z < 256" by (rule of_char_less_256)+
  from 4 b64_group_bounds [OF x y z] b64_group_first [OF y, where x = ?x]
    b64_group_second [OF y z, where x = ?x] b64_group_third [OF z, where y = ?y]
  show ?case
    by (simp add: Let_def b64_index_char_small b64_char_not_pad)
qed

subsection \<open>Claims about signing and sending\<close>

lemma length_b64encode: "length (b64encode bs) = 4 * ((length bs + 2) div 3)"
proof (induction bs rule: b64encode.induct)
  case (4 a b c rest)
  have "(length (a # b # c # rest) + 2) div 3 = Suc ((length rest + 2) div 3)"
    by simp
  with 4 show ?case
    by (simp add: Let_def)
qed (simp_all add: Let_def)

lemma str_int_nonneg:
  assumes "0 \<le> i"
  shows "int_of_digits (str_int i) = i" and "\<forall>c\<in>set (str_int i). is_digit c"
  using assms str_nat_digits [of "nat i"]
  by (simp_all add: str_int_def int_of_digits_str_nat)

text \<open>
  Claim C5: for every token, secret and nonce, \<^verbatim>\<open>generate_sign\<close> returns the triple
  \<open>(t, sign, nonce)\<close> in which \<open>t\<close> is the decimal text of the clock reading in
  milliseconds, rounded to an integer, and \<open>sign\<close> is the Base64 text of the
  HMAC-SHA256 digest, keyed by the secret, of token, \<open>t\<close> and nonce concatenated; the
  nonce is the one supplied or, when none is, a freshly drawn UUID. The sign decodes
  back to the digest and has four characters for every three bytes of it; a
  non-negative \<open>t\<close> consists of digits and reads back as the milliseconds. The clock
  is read once, and a UUID is drawn only when no nonce is supplied.
\<close>

theorem generate_sign_triple:
  fixes E token secret nonce0 w
  defines "ms \<equiv> round_half_even (float_mul (now w (clock_reads w)) 1000)"
  defines "nonce \<equiv> (case nonce0 of None \<Rightarrow> uuid4 w (uuid_draws w) | Some n \<Rightarrow> n)"
  defines "digest \<equiv> hmac_sha256 E secret (token @ str_int ms @ nonce)"
  defines "result \<equiv> fst (generate_sign E token secret nonce0 w)"
  shows "result = (str_int ms, b64encode digest, nonce) \<and>
    b64decode (fst (snd result)) = Some digest \<and>
    length (fst (snd result)) = 4 * ((length digest + 2) div 3) \<and>
    (0 \<le> ms \<longrightarrow> int_of_digits (fst result) = ms \<and> (\<forall>c\<in>set (fst result). is_digit c)) \<and>
    clock_reads (snd (generate_sign E token secret nonce0 w)) = Suc (clock_reads w) \<and>
    uuid_draws (snd (generate_sign E token secret nonce0 w)) =
      (case nonce0 of None \<Rightarrow> Suc (uuid_draws w) | Some n \<Rightarrow> uuid_draws w) \<and>
    trace (snd (generate_sign E token secret nonce0 w)) = trace w"
proof -
  have g: "generate_sign E token secret nonce0 w =
      ((str_int ms, b64encode digest, nonce),
       w\<lparr>clock_reads := Suc (clock_reads w),
         uuid_draws := (case nonce0 of None \<Rightarrow> Suc (uuid_draws w) | Some n \<Rightarrow> uuid_draws w)\<rparr>)"
    by (cases nonce0)
      (simp_all add: generate_sign_def uuid4_str_def time_time_def Let_def ms_def nonce_def
        digest_def)
  show ?thesis
    using str_int_nonneg [of ms]
    by (simp add: result_def g length_b64encode b64decode_b64encode)
qed

lemma str_nat_numeral:
  "str_nat (numeral k) =
     (if numeral k < (10::nat) then [char_of (48 + numeral k :: nat)]
      else str_nat (numeral k div 10) @ [char_of (48 + numeral k mod 10 :: nat)])"
  by (rule str_nat.simps)

lemma str_nat_0: "str_nat 0 = ''0''"
proof -
  have "str_nat 0 = [char_of (48 :: nat)]"
    by (subst str_nat.simps) simp
  then show ?thesis
    by (simp add: char_of_def bit_Suc_0_iff)
qed

lemma str_nat_1: "str_nat 1 = ''1''"
proof -
  have "str_nat 1 = [char_of (49 :: nat)]"
    by (subst str_nat.simps) simp
  then show ?thesis
    by (simp add: char_of_def bit_Suc_0_iff)
qed

lemma str_nat_Suc_0: "str_nat (Suc 0) = ''1''"
  using str_nat_1 by simp

lemma demo_clock: "round_half_even (float_mul (now (demo_world f p) 0) 1000) = 1700000000000"
  by (simp add: demo_world_def float_defs Let_def)

text \<open>The test vectors of RFC 4648.\<close>

lemma b64encode_rfc4648:
  "b64encode ''f'' = ''Zg==''" "b64encode ''fo'' = ''Zm8=''" "b64encode ''foo'' = ''Zm9v''"
  "b64encode ''foob'' = ''Zm9vYg==''" "b64encode ''fooba'' = ''Zm9vYmE=''"
  "b64encode ''foobar'' = ''Zm9vYmFy''"
  by (simp_all add: Let_def b64_char_def b64_alphabet_def)

theorem generate_sign_triple_witness:
  "generate_sign demo_env ''token'' ''secret'' (Some ''n1'')
      (demo_world demo_forecast demo_payload) =
     ((''1700000000000'', ''c2VjcmV0dG9rZW4xNzAwMDAwMDAwMDAwbjE='', ''n1''),
      (demo_world demo_forecast demo_payload)\<lparr>clock_reads := 1\<rparr>) \<and>
   fst (generate_sign demo_env ''token'' ''secret'' None (demo_world demo_forecast demo_payload)) =
     (''1700000000000'', ''c2VjcmV0dG9rZW4xNzAwMDAwMDAwMDAwdXVpZC0w'', ''uuid-0'') \<and>
   b64decode ''c2VjcmV0dG9rZW4xNzAwMDAwMDAwMDAwbjE='' = Some ''secrettoken1700000000000n1''"
proof -
  let ?w = "demo_world demo_forecast demo_payload"
  have c: "clock_reads ?w = 0" "uuid_draws ?w = 0" "uuid4 ?w 0 = ''uuid-0''"
    by (simp_all add: demo_world_def str_nat_0)
  have h: "hmac_sha256 demo_env = (\<lambda>key msg. key @ msg)"
    by (simp add: demo_env_def)
  have t: "str_int 1700000000000 = ''1700000000000''"
    by (simp add: str_int_def str_nat_numeral str_nat_Suc_0 char_of_def bit_Suc_0_iff)
  have s1: "b64encode ''secrettoken1700000000000n1'' = ''c2VjcmV0dG9rZW4xNzAwMDAwMDAwMDAwbjE=''"
    by (simp add: Let_def b64_char_def b64_alphabet_def)
  have s2: "b64encode ''secrettoken1700000000000uuid-0''
      = ''c2VjcmV0dG9rZW4xNzAwMDAwMDAwMDAwdXVpZC0w''"
    by (simp add: Let_def b64_char_def b64_alphabet_def)
  have w': "snd (generate_sign demo_env ''token'' ''secret'' (Some ''n1'') ?w)
      = ?w\<lparr>clock_reads := 1\<rparr>"
    by (simp add: generate_sign_def time_time_def Let_def c split: prod.splits)
  have d: "b64decode ''c2VjcmV0dG9rZW4xNzAwMDAwMDAwMDAwbjE='' = Some ''secrettoken1700000000000n1''"
    using b64decode_b64encode [of "''secrettoken1700000000000n1''"] unfolding s1 .
  from generate_sign_triple [of demo_env "''token''" "''secret''" "Some ''n1''" ?w]
    generate_sign_triple [of demo_env "''token''" "''secret''" None ?w]
  have "fst (generate_sign demo_env ''token'' ''secret'' (Some ''n1'') ?w) =
      (''1700000000000'', ''c2VjcmV0dG9rZW4xNzAwMDAwMDAwMDAwbjE='', ''n1'')"
    and "fst (generate_sign demo_env ''token'' ''secret'' None ?w) =
      (''1700000000000'', ''c2VjcmV0dG9rZW4xNzAwMDAwMDAwMDAwdXVpZC0w'', ''uuid-0'')"
    by (simp_all add: c h t demo_clock Let_def b64_char_def b64_alphabet_def)
  with w' d show ?thesis
    by (simp add: prod_eq_iff)
qed

subsection \<open>Claims about the commands\<close>

lemma post_command_log_dict:
  assumes "server w (length (trace w))
      (command_request E d c p ct (now w (clock_reads w)) (uuid4 w (uuid_draws w))) = Inr r"
    and "\<not> http_error r" and "json_body r = Inr (JObj kvs)"
  shows "post_command E d c p ct w =
     (Inr (Some (JObj kvs)),
      w\<lparr>clock_reads := Suc (clock_reads w), uuid_draws := Suc (uuid_draws w),
        trace := trace w @
          [command_request E d c p ct (now w (clock_reads w)) (uuid4 w (uuid_draws w))],
        log := log w @
          [POST_line (API_BASE_URL @ ''/v1.1/devices/'' @ d @ ''/commands'')
             (JObj [(''command'', JStr c), (''parameter'', JStr p), (''commandType'', JStr ct)]),
           if map_of kvs ''statusCode'' = Some (JNum 100) then SwitchBot_OK (JObj kvs)
           else SwitchBot_error (JObj kvs)]\<rparr>)"
  using assms
  by (simp add: post_command_unfold Let_def post_try_def dict_get_def logger_def
      command_request_def split: option.splits)

text \<open>
  Claim C10: \<^verbatim>\<open>post_command\<close> returns \<^verbatim>\<open>None\<close> exactly when the POST fails at the
  request level, that is when sending, the status check or the decoding raises a
  \<^verbatim>\<open>RequestException\<close>. A response whose body is a dict is returned as it is, also
  when its \<open>statusCode\<close> is not \<open>100\<close>: the error is logged and nothing else happens.
\<close>

theorem post_command_none_iff_request_failed:
  fixes E d c p ct w
  defines "req \<equiv> command_request E d c p ct (now w (clock_reads w)) (uuid4 w (uuid_draws w))"
  defines "reply \<equiv> server w (length (trace w)) req"
  shows "(fst (post_command E d c p ct w) = Inr None \<longleftrightarrow> request_failed reply) \<and>
    (\<forall>r kvs. reply = Inr r \<and> \<not> http_error r \<and> json_body r = Inr (JObj kvs) \<longrightarrow>
       fst (post_command E d c p ct w) = Inr (Some (JObj kvs)) \<and>
       trace (snd (post_command E d c p ct w)) = trace w @ [req] \<and>
       log (snd (post_command E d c p ct w)) =
         log w @
         [POST_line (req_url req)
            (JObj [(''command'', JStr c), (''parameter'', JStr p), (''commandType'', JStr ct)]),
          if map_of kvs ''statusCode'' = Some (JNum 100) then SwitchBot_OK (JObj kvs)
          else SwitchBot_error (JObj kvs)])"
proof -
  have url: "req_url req = API_BASE_URL @ ''/v1.1/devices/'' @ d @ ''/commands''"
    by (simp add: req_def command_request_def Let_def)
  have "fst (post_command E d c p ct w) = Inr None \<longleftrightarrow> request_failed reply"
    unfolding reply_def req_def by (rule post_command_None_iff)
  moreover have "fst (post_command E d c p ct w) = Inr (Some (JObj kvs)) \<and>
       trace (snd (post_command E d c p ct w)) = trace w @ [req] \<and>
       log (snd (post_command E d c p ct w)) =
         log w @
         [POST_line (req_url req)
            (JObj [(''command'', JStr c), (''parameter'', JStr p), (''commandType'', JStr ct)]),
          if map_of kvs ''statusCode'' = Some (JNum 100) then SwitchBot_OK (JObj kvs)
          else SwitchBot_error (JObj kvs)]"
    if "reply = Inr r" "\<not> http_error r" "json_body r = Inr (JObj kvs)" for r kvs
    using post_command_log_dict [OF that [unfolded reply_def req_def]]
    by (simp add: url) (simp add: req_def)
  ultimately show ?thesis
    by blast
qed

lemma demo_post_reply:
  "server (demo_world f p) k (command_request E d c x ct secs nonce)
     = Inr \<lparr>http_error = False, json_body = Inr p\<rparr>"
  by (simp add: demo_world_def demo_server_def command_request_method)

theorem post_command_none_iff_request_failed_witness:
  "fst (post_command demo_env ''lamp'' ''turnOn'' ''default'' ''command''
      (demo_world demo_forecast (JObj [(''statusCode'', JNum 190)])))
     = Inr (Some (JObj [(''statusCode'', JNum 190)])) \<and>
   last (log (snd (post_command demo_env ''lamp'' ''turnOn'' ''default'' ''command''
      (demo_world demo_forecast (JObj [(''statusCode'', JNum 190)])))))
     = SwitchBot_error (JObj [(''statusCode'', JNum 190)]) \<and>
   fst (post_command demo_env ''lamp'' ''turnOn'' ''default'' ''command''
      ((demo_world demo_forecast demo_payload)\<lparr>server := \<lambda>k req. Inl Timeout\<rparr>)) = Inr None"
proof -
  let ?w = "demo_world demo_forecast (JObj [(''statusCode'', JNum 190)])"
  let ?w' = "(demo_world demo_forecast demo_payload)\<lparr>server := \<lambda>k req. Inl Timeout\<rparr>"
  note pc = post_command_none_iff_request_failed
    [of demo_env "''lamp''" "''turnOn''" "''default''" "''command''"]
  have r: "\<not> http_error \<lparr>http_error = False, json_body = Inr (JObj [(''statusCode'', JNum 190)])\<rparr>"
    "json_body \<lparr>http_error = False, json_body = Inr (JObj [(''statusCode'', JNum 190)])\<rparr>
      = Inr (JObj [(''statusCode'', JNum 190)])"
    by simp_all
  from pc [of ?w, THEN conjunct2, rule_format, OF conjI, OF demo_post_reply conjI, OF r]
  have a: "fst (post_command demo_env ''lamp'' ''turnOn'' ''default'' ''command'' ?w)
      = Inr (Some (JObj [(''statusCode'', JNum 190)]))"
    and b: "last (log (snd (post_command demo_env ''lamp'' ''turnOn'' ''default'' ''command'' ?w)))
      = SwitchBot_error (JObj [(''statusCode'', JNum 190)])"
    by simp_all
  have "request_failed (server ?w' k req)" for k req
    by (simp add: request_failed_def is_request_exception_def)
  with pc [of ?w', THEN conjunct1]
  have c: "fst (post_command demo_env ''lamp'' ''turnOn'' ''default'' ''command'' ?w') = Inr None"
    by simp
  from a b c show ?thesis
    by simp
qed





end
